theory Spec2Isabelle
  imports Main "HOL-Library.AList"
begin

section \<open>The syntax tree the codemods rewrite\<close>

text \<open>
  The repository holds several jscodeshift codemods, each a re-implementation of the same
  migration from react-bootstrap to Material UI. They consume a parsed tree and mutate it;
  parsing and printing are jscodeshift's. The model below is the part of the tree the
  scripts read and write. A mutation becomes a function that returns the new tree, a
  thrown exception becomes \<open>Inl\<close> of a sum.

  Limits of the model, stated once: strings are byte strings, and \<open>trim\<close> knows the ASCII
  white space only; JavaScript numbers are integers (the scripts build them from single
  digits and from \<open>parseInt\<close>); attribute names are plain identifiers (no namespaced
  \<open>a:b\<close>); the code inside an expression is opaque unless it is a literal, an identifier,
  an object or an array.
\<close>

datatype error = TypeError | BuilderError

datatype jsval =
    JUndefined
  | JNull
  | JBoolean bool
  | JNumber int
  | JNaN
  | JString string
  | JInherited string

text \<open>
  \<open>JInherited n\<close> is the member \<open>n\<close> that every object literal inherits from
  \<open>Object.prototype\<close>: \<open>table[key]\<close> with a key the table does not own still finds
  \<open>constructor\<close>, \<open>toString\<close> and the like, each a function (or, for \<open>__proto__\<close>,
  the prototype itself) and so truthy.
\<close>

fun truthy :: "jsval \<Rightarrow> bool" where
  "truthy JUndefined = False"
| "truthy JNull = False"
| "truthy (JBoolean b) = b"
| "truthy (JNumber n) = (n \<noteq> 0)"
| "truthy JNaN = False"
| "truthy (JString s) = (s \<noteq> [])"
| "truthy (JInherited n) = True"

definition Object_prototype :: "string list" where
  "Object_prototype =
     [''constructor'', ''hasOwnProperty'', ''isPrototypeOf'', ''propertyIsEnumerable'',
      ''toLocaleString'', ''toString'', ''valueOf'', ''__defineGetter__'',
      ''__defineSetter__'', ''__lookupGetter__'', ''__lookupSetter__'', ''__proto__'']"

datatype 'a member = Own 'a | Inherited | Absent

definition js_get :: "(string \<times> 'a) list \<Rightarrow> string \<Rightarrow> 'a member" where
  "js_get table key =
     (case map_of table key of
        Some v \<Rightarrow> Own v
      | None \<Rightarrow> if key \<in> set Object_prototype then Inherited else Absent)"

text \<open>
  The \<open>type\<close> field of a literal node depends on the parser: \<open>Literal\<close> from the ESTree
  parsers, \<open>StringLiteral\<close>, \<open>NumericLiteral\<close> and \<open>BooleanLiteral\<close> from Babel. The
  scripts test that field, so the model keeps it next to the \<open>value\<close> field.
\<close>

datatype literal_type = Literal | StringLiteral | NumericLiteral | BooleanLiteral

datatype node =
    Lit literal_type jsval
  | Identifier string
  | ObjectExpression "property list"
  | ArrayExpression "node list"
  | JSXExpressionContainer node
  | OtherExpression string
and property =
    Property node node
  | SpreadElement node

datatype attr =
    JSXAttribute string "node option"
  | JSXSpreadAttribute node

datatype jsx_name =
    JSXIdentifier string
  | JSXMemberExpression jsx_name string
  | JSXNamespacedName string string

datatype element =
    JSXElement (opening_name: jsx_name) (attributes: "attr list")
               (closing_name: "jsx_name option") (children: "child list")
and child =
    ChildElement element
  | JSXText string
  | JSXExpressionChild string "element list"

text \<open>
  \<open>JSXExpressionChild code es\<close> is a child \<open>{code}\<close> whose code holds the elements
  \<open>es\<close>, in source order; \<open>closing_name\<close> is \<open>None\<close> for a self-closing element.
\<close>

subsection \<open>Field reads\<close>

text \<open>\<open>attr.name?.name\<close>: a spread attribute has no name.\<close>

fun attr_name :: "attr \<Rightarrow> string option" where
  "attr_name (JSXAttribute n v) = Some n"
| "attr_name (JSXSpreadAttribute e) = None"

text \<open>\<open>node.value\<close>; only literal nodes have the field.\<close>

fun node_value :: "node \<Rightarrow> jsval" where
  "node_value (Lit t v) = v"
| "node_value n = JUndefined"

text \<open>\<open>prop.key.name\<close> of a property whose key is an identifier.\<close>

fun key_name :: "node \<Rightarrow> string option" where
  "key_name (Identifier n) = Some n"
| "key_name k = None"

fun prop_key_name :: "property \<Rightarrow> string option" where
  "prop_key_name (Property k v) = key_name k"
| "prop_key_name (SpreadElement e) = None"

text \<open>The first attribute named \<open>n\<close>, and an update of that attribute in place.\<close>

definition find_attr :: "string \<Rightarrow> attr list \<Rightarrow> attr option" where
  "find_attr n attrs = find (\<lambda>a. attr_name a = Some n) attrs"

fun update_attr :: "string \<Rightarrow> node option \<Rightarrow> attr list \<Rightarrow> attr list" where
  "update_attr n v [] = []"
| "update_attr n v (a # as) =
     (if attr_name a = Some n then JSXAttribute n v # as else a # update_attr n v as)"

section \<open>Merging derived styles into the \<open>sx\<close> attribute\<close>

text \<open>
  A derived style object, as \<open>Object.entries\<close> lists it: keys in insertion order, values
  strings or numbers.
\<close>

datatype sxval = SxStr string | SxNum int

type_synonym sx = "(string \<times> sxval) list"

text \<open>
  \<open>properties.find(prop => prop.key.name === key)\<close>: a spread element has no key, and
  reading \<open>.name\<close> of \<open>undefined\<close> throws; \<open>find\<close> stops at the first hit.
\<close>

fun find_prop :: "string \<Rightarrow> property list \<Rightarrow> error + property option" where
  "find_prop k [] = Inr None"
| "find_prop k (SpreadElement e # ps) = Inl TypeError"
| "find_prop k (Property key v # ps) =
     (if key_name key = Some k then Inr (Some (Property key v)) else find_prop k ps)"

text \<open>
  Both scripts walk \<open>Object.entries\<close> of the derived object and push a new property
  unless \<open>find\<close> returns one; they differ in the literal they build for the value.
\<close>

fun merge_entries :: "(string \<times> sxval \<Rightarrow> property) \<Rightarrow> sx \<Rightarrow> property list \<Rightarrow> error + property list" where
  "merge_entries mk [] ps = Inr ps"
| "merge_entries mk (e # es) ps =
     (case find_prop (fst e) ps of
        Inl err \<Rightarrow> Inl err
      | Inr (Some p) \<Rightarrow> merge_entries mk es ps
      | Inr None \<Rightarrow> merge_entries mk es (ps @ [mk e]))"

subsection \<open>bootstrap\_mui\_deep.js\<close>

text \<open>\<open>typeof value === 'string' ? j.stringLiteral(value) : j.numericLiteral(value)\<close>\<close>

fun deep_literal :: "sxval \<Rightarrow> node" where
  "deep_literal (SxStr s) = Lit StringLiteral (JString s)"
| "deep_literal (SxNum n) = Lit NumericLiteral (JNumber n)"

definition deep_property :: "string \<times> sxval \<Rightarrow> property" where
  "deep_property e = Property (Identifier (fst e)) (deep_literal (snd e))"

text \<open>
  \<open>existingSx.value?.expression?.properties\<close> is defined for a container that holds an
  object literal; with any other \<open>sx\<close> value the function does nothing.
\<close>

definition deep_mergeSxAttribute :: "attr list \<Rightarrow> sx \<Rightarrow> error + attr list" where
  "deep_mergeSxAttribute attrs newSxProps =
     (case find_attr ''sx'' attrs of
        None \<Rightarrow>
          Inr (attrs @ [JSXAttribute ''sx''
                 (Some (JSXExpressionContainer (ObjectExpression (map deep_property newSxProps))))])
      | Some (JSXAttribute n (Some (JSXExpressionContainer (ObjectExpression ps)))) \<Rightarrow>
          (case merge_entries deep_property newSxProps ps of
             Inl err \<Rightarrow> Inl err
           | Inr ps' \<Rightarrow>
               Inr (update_attr ''sx'' (Some (JSXExpressionContainer (ObjectExpression ps'))) attrs))
      | Some other \<Rightarrow> Inr attrs)"

subsection \<open>react-bootstrap-to-mui\_gemini2.js, the third script of the file\<close>

text \<open>\<open>typeof value === 'number' ? j.literal(value) : j.stringLiteral(value)\<close>\<close>

fun gemini_literal :: "sxval \<Rightarrow> node" where
  "gemini_literal (SxNum n) = Lit Literal (JNumber n)"
| "gemini_literal (SxStr s) = Lit StringLiteral (JString s)"

definition gemini_property :: "string \<times> sxval \<Rightarrow> property" where
  "gemini_property e = Property (Identifier (fst e)) (gemini_literal (snd e))"

text \<open>
  With an \<open>sx\<close> attribute that is not an object literal the script replaces its value
  (``Sustituimos sx por un objeto que contiene solo extraObj''). \<open>sxAttr.value &&
  sxAttr.value.expression\<close> reads the expression of a container only.
\<close>

definition gemini_mergeSxAttribute :: "attr list \<Rightarrow> sx \<Rightarrow> error + attr list" where
  "gemini_mergeSxAttribute attrs extraObj =
     (let fresh = Some (JSXExpressionContainer (ObjectExpression (map gemini_property extraObj)))
      in case find_attr ''sx'' attrs of
           None \<Rightarrow> Inr (attrs @ [JSXAttribute ''sx'' fresh])
         | Some (JSXAttribute n (Some (JSXExpressionContainer (ObjectExpression ps)))) \<Rightarrow>
             (case merge_entries gemini_property extraObj ps of
                Inl err \<Rightarrow> Inl err
              | Inr ps' \<Rightarrow>
                  Inr (update_attr ''sx'' (Some (JSXExpressionContainer (ObjectExpression ps'))) attrs))
         | Some other \<Rightarrow> Inr (update_attr ''sx'' fresh attrs))"


section \<open>Strings\<close>

text \<open>\<open>s.split(' ')\<close>: one piece more than there are spaces, empty pieces included.\<close>

fun split_on :: "char \<Rightarrow> string \<Rightarrow> string list" where
  "split_on c [] = [[]]"
| "split_on c (x # xs) =
     (if x = c then [] # split_on c xs
      else (case split_on c xs of [] \<Rightarrow> [[x]] | w # ws \<Rightarrow> (x # w) # ws))"

definition is_space :: "char \<Rightarrow> bool" where
  "is_space c = (c \<in> set [CHR '' '', CHR 0x09, CHR 0x0A, CHR 0x0B, CHR 0x0C, CHR 0x0D])"

definition js_trim :: "string \<Rightarrow> string" where
  "js_trim s = rev (dropWhile is_space (rev (dropWhile is_space s)))"

text \<open>\<open>xs.join(' ')\<close>\<close>

fun join_space :: "string list \<Rightarrow> string" where
  "join_space [] = []"
| "join_space [x] = x"
| "join_space (x # y # ys) = x @ CHR '' '' # join_space (y # ys)"

text \<open>\<open>s.includes(sub)\<close> and \<open>s.startsWith(p)\<close>\<close>

definition starts_with :: "string \<Rightarrow> string \<Rightarrow> bool" where
  "starts_with s p = (take (length p) s = p)"

fun js_includes :: "string \<Rightarrow> string \<Rightarrow> bool" where
  "js_includes [] sub = (sub = [])"
| "js_includes (c # cs) sub = (starts_with (c # cs) sub \<or> js_includes cs sub)"

definition is_digit :: "char \<Rightarrow> bool" where
  "is_digit c = (c \<in> set ''0123456789'')"

text \<open>\<open>parseInt\<close> and \<open>Number\<close> of a string of decimal digits.\<close>

definition digit_value :: "char \<Rightarrow> int" where
  "digit_value c = int (of_char c) - 48"

definition number_of_digits :: "string \<Rightarrow> int" where
  "number_of_digits ds = foldl (\<lambda>n c. 10 * n + digit_value c) 0 ds"

text \<open>\<open>Object.assign(target, source)\<close> on objects listed as their entries.\<close>

definition object_assign :: "('k \<times> 'v) list \<Rightarrow> ('k \<times> 'v) list \<Rightarrow> ('k \<times> 'v) list" where
  "object_assign target src = fold (\<lambda>e. AList.update (fst e) (snd e)) src target"

section \<open>Programs and tree walks\<close>

datatype specifier =
    ImportSpecifier string string
  | ImportDefaultSpecifier string
  | ImportNamespaceSpecifier string

text \<open>\<open>ImportSpecifier imported local\<close> is \<open>import { imported as local }\<close>.\<close>

fun local_name :: "specifier \<Rightarrow> string" where
  "local_name (ImportSpecifier i l) = l"
| "local_name (ImportDefaultSpecifier l) = l"
| "local_name (ImportNamespaceSpecifier l) = l"

record import_decl =
  source :: string
  specifiers :: "specifier list"

text \<open>
  A program, as far as the codemods look at it: its import declarations in file order, the
  names it declares itself as functions, classes or function-valued variables, and the
  outermost JSX elements in file order.
\<close>

record program =
  import_decls :: "import_decl list"
  local_decls :: "string list"
  roots :: "element list"

text \<open>
  What a transform returns to jscodeshift: the source it was given (or \<open>null\<close>), which
  leaves the file as it is, or the printed tree.
\<close>

datatype result = Unchanged | Changed program

text \<open>
  \<open>root.find(j.JSXElement, filter).forEach(callback)\<close> visits the elements in document
  order, a parent before its children. The callbacks of the scripts read and write the
  names and the attributes of the element they visit (its head), together with the
  script's own variables, the state \<open>'s\<close>. The elements are collected before the first
  callback runs; no callback changes the name another test of the same \<open>find\<close> reads, so
  testing the name at the visit is testing it at collection.
\<close>

type_synonym head = "jsx_name \<times> attr list \<times> jsx_name option"

fun walk :: "(head \<Rightarrow> 's \<Rightarrow> error + head \<times> 's) \<Rightarrow> element \<Rightarrow> 's \<Rightarrow> error + element \<times> 's"
  and walk_children :: "(head \<Rightarrow> 's \<Rightarrow> error + head \<times> 's) \<Rightarrow> child list \<Rightarrow> 's \<Rightarrow> error + child list \<times> 's"
  and walk_child :: "(head \<Rightarrow> 's \<Rightarrow> error + head \<times> 's) \<Rightarrow> child \<Rightarrow> 's \<Rightarrow> error + child \<times> 's"
  and walk_elements :: "(head \<Rightarrow> 's \<Rightarrow> error + head \<times> 's) \<Rightarrow> element list \<Rightarrow> 's \<Rightarrow> error + element list \<times> 's"
where
  "walk f (JSXElement n a c ch) s =
     (case f (n, a, c) s of
        Inl err \<Rightarrow> Inl err
      | Inr ((n', a', c'), s1) \<Rightarrow>
          (case walk_children f ch s1 of
             Inl err \<Rightarrow> Inl err
           | Inr (ch', s2) \<Rightarrow> Inr (JSXElement n' a' c' ch', s2)))"
| "walk_children f [] s = Inr ([], s)"
| "walk_children f (x # xs) s =
     (case walk_child f x s of
        Inl err \<Rightarrow> Inl err
      | Inr (x', s1) \<Rightarrow>
          (case walk_children f xs s1 of
             Inl err \<Rightarrow> Inl err
           | Inr (xs', s2) \<Rightarrow> Inr (x' # xs', s2)))"
| "walk_child f (ChildElement e) s =
     (case walk f e s of Inl err \<Rightarrow> Inl err | Inr (e', s1) \<Rightarrow> Inr (ChildElement e', s1))"
| "walk_child f (JSXText t) s = Inr (JSXText t, s)"
| "walk_child f (JSXExpressionChild code es) s =
     (case walk_elements f es s of
        Inl err \<Rightarrow> Inl err
      | Inr (es', s1) \<Rightarrow> Inr (JSXExpressionChild code es', s1))"
| "walk_elements f [] s = Inr ([], s)"
| "walk_elements f (e # es) s =
     (case walk f e s of
        Inl err \<Rightarrow> Inl err
      | Inr (e', s1) \<Rightarrow>
          (case walk_elements f es s1 of
             Inl err \<Rightarrow> Inl err
           | Inr (es', s2) \<Rightarrow> Inr (e' # es', s2)))"

text \<open>\<open>closingElement.name.name = n\<close>, when there is a closing element.\<close>

fun rename_identifier :: "string \<Rightarrow> jsx_name \<Rightarrow> jsx_name" where
  "rename_identifier n (JSXIdentifier old) = JSXIdentifier n"
| "rename_identifier n other = other"

text \<open>\<open>node.value = v\<close>: only a literal node prints its \<open>value\<close> field.\<close>

fun set_value :: "jsval \<Rightarrow> node \<Rightarrow> node" where
  "set_value v (Lit t old) = Lit t v"
| "set_value v n = n"

section \<open>bootstrap\_mui\_deep.js\<close>

text \<open>
  The file as it stands does not parse: line 320 reads \<open>c.trim')\<close>. The model takes the
  line as its twin three lines above, \<open>c.trim()\<close>.
\<close>

definition CLASSNAME_TO_SX :: "(string \<times> sx) list" where
  "CLASSNAME_TO_SX =
     [(''m-0'', [(''m'', SxNum 0)]), (''m-1'', [(''m'', SxNum 1)]),
      (''m-2'', [(''m'', SxNum 2)]), (''m-3'', [(''m'', SxNum 3)]),
      (''m-4'', [(''m'', SxNum 4)]), (''m-5'', [(''m'', SxNum 5)]),
      (''mt-0'', [(''mt'', SxNum 0)]), (''mt-1'', [(''mt'', SxNum 1)]),
      (''mt-2'', [(''mt'', SxNum 2)]), (''mt-3'', [(''mt'', SxNum 3)]),
      (''mt-4'', [(''mt'', SxNum 4)]), (''mt-5'', [(''mt'', SxNum 5)]),
      (''mb-0'', [(''mb'', SxNum 0)]), (''mb-1'', [(''mb'', SxNum 1)]),
      (''mb-2'', [(''mb'', SxNum 2)]), (''mb-3'', [(''mb'', SxNum 3)]),
      (''mb-4'', [(''mb'', SxNum 4)]), (''mb-5'', [(''mb'', SxNum 5)]),
      (''ml-0'', [(''ml'', SxNum 0)]), (''ml-1'', [(''ml'', SxNum 1)]),
      (''ml-2'', [(''ml'', SxNum 2)]), (''ml-3'', [(''ml'', SxNum 3)]),
      (''ml-4'', [(''ml'', SxNum 4)]), (''ml-5'', [(''ml'', SxNum 5)]),
      (''mr-0'', [(''mr'', SxNum 0)]), (''mr-1'', [(''mr'', SxNum 1)]),
      (''mr-2'', [(''mr'', SxNum 2)]), (''mr-3'', [(''mr'', SxNum 3)]),
      (''mr-4'', [(''mr'', SxNum 4)]), (''mr-5'', [(''mr'', SxNum 5)]),
      (''mx-0'', [(''mx'', SxNum 0)]), (''mx-1'', [(''mx'', SxNum 1)]),
      (''mx-2'', [(''mx'', SxNum 2)]), (''mx-3'', [(''mx'', SxNum 3)]),
      (''mx-4'', [(''mx'', SxNum 4)]), (''mx-5'', [(''mx'', SxNum 5)]),
      (''my-0'', [(''my'', SxNum 0)]), (''my-1'', [(''my'', SxNum 1)]),
      (''my-2'', [(''my'', SxNum 2)]), (''my-3'', [(''my'', SxNum 3)]),
      (''my-4'', [(''my'', SxNum 4)]), (''my-5'', [(''my'', SxNum 5)]),
      (''p-0'', [(''p'', SxNum 0)]), (''p-1'', [(''p'', SxNum 1)]),
      (''p-2'', [(''p'', SxNum 2)]), (''p-3'', [(''p'', SxNum 3)]),
      (''p-4'', [(''p'', SxNum 4)]), (''p-5'', [(''p'', SxNum 5)]),
      (''pt-0'', [(''pt'', SxNum 0)]), (''pt-1'', [(''pt'', SxNum 1)]),
      (''pt-2'', [(''pt'', SxNum 2)]), (''pt-3'', [(''pt'', SxNum 3)]),
      (''pt-4'', [(''pt'', SxNum 4)]), (''pt-5'', [(''pt'', SxNum 5)]),
      (''pb-0'', [(''pb'', SxNum 0)]), (''pb-1'', [(''pb'', SxNum 1)]),
      (''pb-2'', [(''pb'', SxNum 2)]), (''pb-3'', [(''pb'', SxNum 3)]),
      (''pb-4'', [(''pb'', SxNum 4)]), (''pb-5'', [(''pb'', SxNum 5)]),
      (''pl-0'', [(''pl'', SxNum 0)]), (''pl-1'', [(''pl'', SxNum 1)]),
      (''pl-2'', [(''pl'', SxNum 2)]), (''pl-3'', [(''pl'', SxNum 3)]),
      (''pl-4'', [(''pl'', SxNum 4)]), (''pl-5'', [(''pl'', SxNum 5)]),
      (''pr-0'', [(''pr'', SxNum 0)]), (''pr-1'', [(''pr'', SxNum 1)]),
      (''pr-2'', [(''pr'', SxNum 2)]), (''pr-3'', [(''pr'', SxNum 3)]),
      (''pr-4'', [(''pr'', SxNum 4)]), (''pr-5'', [(''pr'', SxNum 5)]),
      (''px-0'', [(''px'', SxNum 0)]), (''px-1'', [(''px'', SxNum 1)]),
      (''px-2'', [(''px'', SxNum 2)]), (''px-3'', [(''px'', SxNum 3)]),
      (''px-4'', [(''px'', SxNum 4)]), (''px-5'', [(''px'', SxNum 5)]),
      (''py-0'', [(''py'', SxNum 0)]), (''py-1'', [(''py'', SxNum 1)]),
      (''py-2'', [(''py'', SxNum 2)]), (''py-3'', [(''py'', SxNum 3)]),
      (''py-4'', [(''py'', SxNum 4)]), (''py-5'', [(''py'', SxNum 5)]),
      (''d-flex'', [(''display'', SxStr ''flex'')]),
      (''d-none'', [(''display'', SxStr ''none'')]),
      (''d-block'', [(''display'', SxStr ''block'')]),
      (''d-inline'', [(''display'', SxStr ''inline'')]),
      (''d-inline-block'', [(''display'', SxStr ''inline-block'')]),
      (''justify-content-start'', [(''justifyContent'', SxStr ''flex-start'')]),
      (''justify-content-end'', [(''justifyContent'', SxStr ''flex-end'')]),
      (''justify-content-center'', [(''justifyContent'', SxStr ''center'')]),
      (''justify-content-between'', [(''justifyContent'', SxStr ''space-between'')]),
      (''justify-content-around'', [(''justifyContent'', SxStr ''space-around'')]),
      (''align-items-start'', [(''alignItems'', SxStr ''flex-start'')]),
      (''align-items-end'', [(''alignItems'', SxStr ''flex-end'')]),
      (''align-items-center'', [(''alignItems'', SxStr ''center'')]),
      (''align-items-baseline'', [(''alignItems'', SxStr ''baseline'')]),
      (''align-items-stretch'', [(''alignItems'', SxStr ''stretch'')]),
      (''flex-column'', [(''flexDirection'', SxStr ''column'')]),
      (''flex-row'', [(''flexDirection'', SxStr ''row'')]),
      (''flex-wrap'', [(''flexWrap'', SxStr ''wrap'')]),
      (''flex-nowrap'', [(''flexWrap'', SxStr ''nowrap'')]),
      (''flex-fill'', [(''flex'', SxStr ''1 1 auto'')]),
      (''text-start'', [(''textAlign'', SxStr ''left'')]),
      (''text-center'', [(''textAlign'', SxStr ''center'')]),
      (''text-end'', [(''textAlign'', SxStr ''right'')]),
      (''text-justify'', [(''textAlign'', SxStr ''justify'')]),
      (''text-uppercase'', [(''textTransform'', SxStr ''uppercase'')]),
      (''text-lowercase'', [(''textTransform'', SxStr ''lowercase'')]),
      (''text-capitalize'', [(''textTransform'', SxStr ''capitalize'')]),
      (''fw-bold'', [(''fontWeight'', SxStr ''bold'')]),
      (''fw-bolder'', [(''fontWeight'', SxStr ''bolder'')]),
      (''fw-normal'', [(''fontWeight'', SxStr ''normal'')]),
      (''fw-light'', [(''fontWeight'', SxStr ''light'')]),
      (''fst-italic'', [(''fontStyle'', SxStr ''italic'')]),
      (''text-primary'', [(''color'', SxStr ''primary.main'')]),
      (''text-secondary'', [(''color'', SxStr ''secondary.main'')]),
      (''text-success'', [(''color'', SxStr ''success.main'')]),
      (''text-danger'', [(''color'', SxStr ''error.main'')]),
      (''text-warning'', [(''color'', SxStr ''warning.main'')]),
      (''text-info'', [(''color'', SxStr ''info.main'')]),
      (''text-muted'', [(''color'', SxStr ''text.secondary'')]),
      (''w-100'', [(''width'', SxStr ''100%'')]), (''h-100'', [(''height'', SxStr ''100%'')]),
      (''vw-100'', [(''width'', SxStr ''100vw'')]),
      (''vh-100'', [(''height'', SxStr ''100vh'')]),
      (''position-relative'', [(''position'', SxStr ''relative'')]),
      (''position-absolute'', [(''position'', SxStr ''absolute'')]),
      (''position-fixed'', [(''position'', SxStr ''fixed'')]),
      (''position-sticky'', [(''position'', SxStr ''sticky'')]),
      (''border'', [(''border'', SxStr ''1px solid'')]),
      (''border-0'', [(''border'', SxNum 0)]), (''rounded'', [(''borderRadius'', SxNum 1)]),
      (''rounded-0'', [(''borderRadius'', SxNum 0)]),
      (''bg-primary'', [(''backgroundColor'', SxStr ''primary.main'')]),
      (''bg-secondary'', [(''backgroundColor'', SxStr ''secondary.main'')]),
      (''bg-success'', [(''backgroundColor'', SxStr ''success.main'')]),
      (''bg-danger'', [(''backgroundColor'', SxStr ''error.main'')]),
      (''bg-warning'', [(''backgroundColor'', SxStr ''warning.main'')]),
      (''bg-info'', [(''backgroundColor'', SxStr ''info.main'')]),
      (''bg-light'', [(''backgroundColor'', SxStr ''grey.100'')]),
      (''bg-dark'', [(''backgroundColor'', SxStr ''grey.900'')])]"

text \<open>
  The classes of a \<open>className\<close> value. \<open>classValue.type\<close> of an attribute without a value
  throws.
\<close>

definition tokens :: "string \<Rightarrow> string list" where
  "tokens s = filter (\<lambda>c. js_trim c \<noteq> []) (split_on CHR '' '' s)"

fun deep_classes :: "node option \<Rightarrow> error + string list" where
  "deep_classes None = Inl TypeError"
| "deep_classes (Some (Lit StringLiteral (JString s))) = Inr (tokens s)"
| "deep_classes (Some (Lit StringLiteral v)) = Inl TypeError"
| "deep_classes (Some (JSXExpressionContainer (Lit StringLiteral (JString s)))) = Inr (tokens s)"
| "deep_classes (Some (JSXExpressionContainer (Lit StringLiteral v))) = Inl TypeError"
| "deep_classes (Some other) = Inr []"

text \<open>
  \<open>if (CLASSNAME_TO_SX[cls]) Object.assign(sxProps, CLASSNAME_TO_SX[cls]); else
  remainingClasses.push(cls)\<close>. An inherited member is truthy and has no enumerable
  property of its own to assign.
\<close>

fun deep_sort_classes :: "string list \<Rightarrow> sx \<times> string list \<Rightarrow> sx \<times> string list" where
  "deep_sort_classes [] acc = acc"
| "deep_sort_classes (cls # rest) (sxProps, remainingClasses) =
     (case js_get CLASSNAME_TO_SX cls of
        Own obj \<Rightarrow> deep_sort_classes rest (object_assign sxProps obj, remainingClasses)
      | Inherited \<Rightarrow> deep_sort_classes rest (sxProps, remainingClasses)
      | Absent \<Rightarrow> deep_sort_classes rest (sxProps, remainingClasses @ [cls]))"

text \<open>The second component tells whether \<open>hasChanges\<close> was set.\<close>

definition deep_convertClassNameToSx :: "attr list \<Rightarrow> error + attr list \<times> bool" where
  "deep_convertClassNameToSx attrs =
     (case find_attr ''className'' attrs of
        None \<Rightarrow> Inr (attrs, False)
      | Some (JSXSpreadAttribute e) \<Rightarrow> Inr (attrs, False)
      | Some (JSXAttribute n classValue) \<Rightarrow>
          (case deep_classes classValue of
             Inl err \<Rightarrow> Inl err
           | Inr classes \<Rightarrow>
               if classes = [] then Inr (attrs, False)
               else
                 (case deep_sort_classes classes ([], []) of
                    (sxProps, remainingClasses) \<Rightarrow>
                      (case (if sxProps \<noteq> [] then deep_mergeSxAttribute attrs sxProps else Inr attrs) of
                         Inl err \<Rightarrow> Inl err
                       | Inr attrs1 \<Rightarrow>
                           Inr (if remainingClasses \<noteq> []
                                then update_attr ''className''
                                       (Some (Lit StringLiteral (JString (join_space remainingClasses)))) attrs1
                                else filter (\<lambda>a. attr_name a \<noteq> Some ''className'') attrs1,
                                sxProps \<noteq> [])))))"

subsection \<open>The rule tables\<close>

datatype prop_default = PBool bool | PNum int | PStr string | PObj sx

record config =
  cfg_name :: string
  cfg_import :: string
  cfg_propMap :: "(string \<times> (string \<times> string) list) list option"
  cfg_props :: "(string \<times> prop_default) list"

definition plain :: "string \<Rightarrow> string \<Rightarrow> config" where
  "plain n i = \<lparr>cfg_name = n, cfg_import = i, cfg_propMap = None, cfg_props = []\<rparr>"

definition COMPONENT_MAP :: "(string \<times> config) list" where
  "COMPONENT_MAP =
     [(''Button'',
        \<lparr>cfg_name = ''Button'', cfg_import = ''@mui/material/Button'',
         cfg_propMap = Some
           [(''variant'',
               [(''primary'', ''contained''), (''secondary'', ''outlined''), (''success'', ''contained''),
                (''danger'', ''contained''), (''warning'', ''contained''), (''info'', ''contained''),
                (''light'', ''outlined''), (''dark'', ''contained''), (''link'', ''text'')]),
            (''color'',
               [(''primary'', ''primary''), (''secondary'', ''secondary''), (''success'', ''success''),
                (''danger'', ''error''), (''warning'', ''warning''), (''info'', ''info''),
                (''light'', ''default''), (''dark'', ''primary''), (''link'', ''primary'')]),
            (''size'', [(''sm'', ''small''), (''lg'', ''large'')])],
         cfg_props = []\<rparr>),
      (''Alert'', plain ''Alert'' ''@mui/material/Alert''),
      (''Container'', plain ''Container'' ''@mui/material/Container''),
      (''Card'', plain ''Card'' ''@mui/material/Card''),
      (''Badge'', plain ''Badge'' ''@mui/material/Badge''),
      (''Spinner'', plain ''CircularProgress'' ''@mui/material/CircularProgress''),
      (''Row'',
        \<lparr>cfg_name = ''Grid'', cfg_import = ''@mui/material/Grid'', cfg_propMap = None,
         cfg_props = [(''container'', PBool True), (''spacing'', PNum 2)]\<rparr>),
      (''Col'',
        \<lparr>cfg_name = ''Grid'', cfg_import = ''@mui/material/Grid'', cfg_propMap = None,
         cfg_props = [(''item'', PBool True), (''xs'', PNum 12)]\<rparr>),
      (''Navbar'', plain ''AppBar'' ''@mui/material/AppBar''),
      (''Nav'', plain ''Toolbar'' ''@mui/material/Toolbar''),
      (''Form'', plain ''Box'' ''@mui/material/Box''),
      (''FormControl'', plain ''TextField'' ''@mui/material/TextField''),
      (''FormLabel'', plain ''InputLabel'' ''@mui/material/InputLabel''),
      (''Form.Check'', plain ''Checkbox'' ''@mui/material/Checkbox''),
      (''Modal'', plain ''Dialog'' ''@mui/material/Dialog'')]"

text \<open>\<open>COMPONENT_MAP.Alert.severityMap\<close>, which only the Alert pass reads.\<close>

definition severityMap :: "(string \<times> string) list" where
  "severityMap =
     [(''primary'', ''info''), (''secondary'', ''info''), (''success'', ''success''),
      (''danger'', ''error''), (''warning'', ''warning''), (''info'', ''info''),
      (''light'', ''info''), (''dark'', ''info'')]"

definition SUBCOMPONENT_MAP :: "(string \<times> config) list" where
  "SUBCOMPONENT_MAP =
     [(''Card.Body'', plain ''CardContent'' ''@mui/material/CardContent''),
      (''Card.Header'', plain ''CardHeader'' ''@mui/material/CardHeader''),
      (''Card.Footer'', plain ''Box'' ''@mui/material/Box''),
      (''Card.Title'',
        \<lparr>cfg_name = ''Typography'', cfg_import = ''@mui/material/Typography'', cfg_propMap = None,
         cfg_props = [(''variant'', PStr ''h5''), (''component'', PStr ''div'')]\<rparr>),
      (''Card.Text'',
        \<lparr>cfg_name = ''Typography'', cfg_import = ''@mui/material/Typography'', cfg_propMap = None,
         cfg_props = [(''variant'', PStr ''body2''), (''color'', PStr ''text.secondary'')]\<rparr>),
      (''Modal.Header'', plain ''DialogTitle'' ''@mui/material/DialogTitle''),
      (''Modal.Body'', plain ''DialogContent'' ''@mui/material/DialogContent''),
      (''Modal.Footer'', plain ''DialogActions'' ''@mui/material/DialogActions''),
      (''Modal.Title'', plain ''DialogTitle'' ''@mui/material/DialogTitle''),
      (''Navbar.Brand'',
        \<lparr>cfg_name = ''Typography'', cfg_import = ''@mui/material/Typography'', cfg_propMap = None,
         cfg_props = [(''variant'', PStr ''h6''), (''component'', PStr ''div''),
                      (''sx'', PObj [(''flexGrow'', SxNum 1)])]\<rparr>)]"

subsection \<open>Pass 1: the Bootstrap imports\<close>

text \<open>
  Every import whose source contains \<open>bootstrap\<close> goes; \<open>hasChanges\<close> is set when one
  went.
\<close>

definition deep_remove_imports :: "import_decl list \<Rightarrow> import_decl list \<times> bool" where
  "deep_remove_imports decls =
     (filter (\<lambda>d. \<not> js_includes (source d) ''bootstrap'') decls,
      \<exists>d \<in> set decls. js_includes (source d) ''bootstrap'')"

subsection \<open>Pass 2: the components\<close>

text \<open>
  The keys a table inherits lead into the built-in objects of the engine that runs the
  script. \<open>host n k\<close> says whether \<open>Object.prototype[n][k]\<close> is truthy there.
\<close>

type_synonym host = "string \<Rightarrow> string \<Rightarrow> bool"

text \<open>\<open>attr.value.value || attr.value.expression?.value\<close>\<close>

definition deep_attr_value :: "node \<Rightarrow> jsval" where
  "deep_attr_value v =
     (if truthy (node_value v) then node_value v
      else (case v of JSXExpressionContainer e \<Rightarrow> node_value e | _ \<Rightarrow> JUndefined))"

text \<open>
  \<open>if (attr.name?.name in muiConfig.propMap && attr.value)\<close>, then \<open>if (value &&
  propMap[name][value]) attr.value.value = propMap[name][value]\<close>. A number or a boolean
  is a key no table and no built-in object has. The assignment to a container sets a field
  that is not part of the tree.
\<close>

fun deep_map_prop :: "host \<Rightarrow> (string \<times> (string \<times> string) list) list \<Rightarrow> attr \<Rightarrow> attr" where
  "deep_map_prop h pm (JSXAttribute n (Some v)) =
     (case deep_attr_value v of
        JString s \<Rightarrow>
          if s = [] then JSXAttribute n (Some v)
          else
            (case js_get pm n of
               Own enum \<Rightarrow>
                 (case js_get enum s of
                    Own m \<Rightarrow> JSXAttribute n (Some (set_value (JString m) v))
                  | Inherited \<Rightarrow> JSXAttribute n (Some (set_value (JInherited s) v))
                  | Absent \<Rightarrow> JSXAttribute n (Some v))
             | Inherited \<Rightarrow>
                 if h n s then JSXAttribute n (Some (set_value (JInherited (n @ ''.'' @ s)) v))
                 else JSXAttribute n (Some v)
             | Absent \<Rightarrow> JSXAttribute n (Some v))
      | other \<Rightarrow> JSXAttribute n (Some v))"
| "deep_map_prop h pm a = a"

text \<open>
  The default props of a component: a boolean gives an attribute without a value, anything
  else an expression container; \<open>j.numericLiteral\<close> refuses what is not a number.
\<close>

fun deep_default_attr :: "string \<times> prop_default \<Rightarrow> error + attr" where
  "deep_default_attr (k, PBool b) = Inr (JSXAttribute k None)"
| "deep_default_attr (k, PStr s) =
     Inr (JSXAttribute k (Some (JSXExpressionContainer (Lit StringLiteral (JString s)))))"
| "deep_default_attr (k, PNum n) =
     Inr (JSXAttribute k (Some (JSXExpressionContainer (Lit NumericLiteral (JNumber n)))))"
| "deep_default_attr (k, PObj obj) = Inl BuilderError"

fun sequence :: "(error + 'a) list \<Rightarrow> error + 'a list" where
  "sequence [] = Inr []"
| "sequence (x # xs) =
     (case x of
        Inl err \<Rightarrow> Inl err
      | Inr v \<Rightarrow> (case sequence xs of Inl err \<Rightarrow> Inl err | Inr vs \<Rightarrow> Inr (v # vs)))"

definition deep_component :: "host \<Rightarrow> string \<times> config \<Rightarrow> head \<Rightarrow> bool \<Rightarrow> error + head \<times> bool" where
  "deep_component h entry el hasChanges =
     (case el of
        (n, attrs, c) \<Rightarrow>
          if n \<noteq> JSXIdentifier (fst entry) then Inr (el, hasChanges)
          else
            (case sequence (map deep_default_attr (cfg_props (snd entry))) of
               Inl err \<Rightarrow> Inl err
             | Inr defaults \<Rightarrow>
                 (case deep_convertClassNameToSx
                         ((case cfg_propMap (snd entry) of
                             None \<Rightarrow> attrs
                           | Some pm \<Rightarrow> map (deep_map_prop h pm) attrs) @ defaults) of
                    Inl err \<Rightarrow> Inl err
                  | Inr (attrs', changed) \<Rightarrow>
                      Inr ((JSXIdentifier (cfg_name (snd entry)), attrs',
                            map_option (rename_identifier (cfg_name (snd entry))) c), True))))"

text \<open>One \<open>find\<close> and \<open>forEach\<close> per entry of the table, in the order of the table.\<close>

fun deep_passes :: "(string \<times> config \<Rightarrow> head \<Rightarrow> bool \<Rightarrow> error + head \<times> bool) \<Rightarrow> (string \<times> config) list
    \<Rightarrow> element list \<Rightarrow> bool \<Rightarrow> error + element list \<times> bool" where
  "deep_passes visit [] es hasChanges = Inr (es, hasChanges)"
| "deep_passes visit (entry # entries) es hasChanges =
     (case walk_elements (visit entry) es hasChanges of
        Inl err \<Rightarrow> Inl err
      | Inr (es', hasChanges') \<Rightarrow> deep_passes visit entries es' hasChanges')"

subsection \<open>Pass 3: the sub-components\<close>

text \<open>
  An object-valued default is merged into \<open>sx\<close>, a boolean gives an attribute without a
  value, anything else goes through \<open>j.stringLiteral\<close>, which refuses a number.
\<close>

fun deep_sub_default :: "attr list \<Rightarrow> string \<times> prop_default \<Rightarrow> error + attr list" where
  "deep_sub_default attrs (k, PObj obj) = deep_mergeSxAttribute attrs obj"
| "deep_sub_default attrs (k, PBool b) = Inr (attrs @ [JSXAttribute k None])"
| "deep_sub_default attrs (k, PStr s) =
     Inr (attrs @ [JSXAttribute k (Some (Lit StringLiteral (JString s)))])"
| "deep_sub_default attrs (k, PNum n) = Inl BuilderError"

fun deep_sub_defaults :: "attr list \<Rightarrow> (string \<times> prop_default) list \<Rightarrow> error + attr list" where
  "deep_sub_defaults attrs [] = Inr attrs"
| "deep_sub_defaults attrs (d # ds) =
     (case deep_sub_default attrs d of
        Inl err \<Rightarrow> Inl err
      | Inr attrs' \<Rightarrow> deep_sub_defaults attrs' ds)"

text \<open>\<open>const [parent, child] = bootstrapName.split('.')\<close>\<close>

definition deep_subcomponent :: "string \<times> config \<Rightarrow> head \<Rightarrow> bool \<Rightarrow> error + head \<times> bool" where
  "deep_subcomponent entry el hasChanges =
     (case el of
        (n, attrs, c) \<Rightarrow>
          (case split_on CHR ''.'' (fst entry) of
             parent # child # rest \<Rightarrow>
               if n \<noteq> JSXMemberExpression (JSXIdentifier parent) child then Inr (el, hasChanges)
               else
                 (case deep_sub_defaults attrs (cfg_props (snd entry)) of
                    Inl err \<Rightarrow> Inl err
                  | Inr attrs1 \<Rightarrow>
                      (case deep_convertClassNameToSx attrs1 of
                         Inl err \<Rightarrow> Inl err
                       | Inr (attrs', changed) \<Rightarrow>
                           Inr ((JSXIdentifier (cfg_name (snd entry)), attrs',
                                 map_option (\<lambda>old. JSXIdentifier (cfg_name (snd entry))) c), True)))
           | other \<Rightarrow> Inr (el, hasChanges)))"

subsection \<open>Pass 4: the column classes\<close>

text \<open>\<open>/^col-(xs|sm|md|lg|xl)?-?(\d+)$/\<close>: the breakpoint, if any, and the digits.\<close>

definition col_match :: "string \<Rightarrow> (string option \<times> string) option" where
  "col_match c =
     (if \<not> starts_with c ''col-'' then None
      else
        (let r = drop 4 c;
             bp = (if take 2 r \<in> set [''xs'', ''sm'', ''md'', ''lg'', ''xl''] then Some (take 2 r) else None);
             r1 = (if bp = None then r else drop 2 r);
             r2 = (if starts_with r1 ''-'' \<and> r1 \<noteq> [] then drop 1 r1 else r1)
         in if r2 \<noteq> [] \<and> list_all is_digit r2 then Some (bp, r2) else None))"

text \<open>The first attribute named \<open>n\<close> replaced by \<open>b\<close>.\<close>

fun replace_attr :: "string \<Rightarrow> attr \<Rightarrow> attr list \<Rightarrow> attr list" where
  "replace_attr n b [] = []"
| "replace_attr n b (a # as) = (if attr_name a = Some n then b # as else a # replace_attr n b as)"

definition deep_col :: "head \<Rightarrow> bool \<Rightarrow> error + head \<times> bool" where
  "deep_col el hasChanges =
     (case el of
        (n, attrs, c) \<Rightarrow>
          if n \<noteq> JSXIdentifier ''Col'' then Inr (el, hasChanges)
          else
            (case find_attr ''className'' attrs of
               Some (JSXAttribute cn (Some v)) \<Rightarrow>
                 (case (if truthy (node_value v) then node_value v
                        else (case v of
                                JSXExpressionContainer (Lit StringLiteral x) \<Rightarrow> x
                              | _ \<Rightarrow> JString [])) of
                    JString classValue \<Rightarrow>
                      if classValue = [] then Inr (el, hasChanges)
                      else
                        (case find (\<lambda>cls. col_match cls \<noteq> None) (split_on CHR '' '' classValue) of
                           None \<Rightarrow> Inr (el, hasChanges)
                         | Some colClass \<Rightarrow>
                             (case col_match colClass of
                                None \<Rightarrow> Inr (el, hasChanges)
                              | Some (bp, digits) \<Rightarrow>
                                  Inr ((n,
                                        (let attrs1 = attrs @
                                               [JSXAttribute (case bp of None \<Rightarrow> ''xs'' | Some b \<Rightarrow> b)
                                                  (Some (JSXExpressionContainer
                                                     (Lit NumericLiteral (JNumber (number_of_digits digits)))))];
                                             remainingClasses =
                                               filter (\<lambda>cls. cls \<noteq> colClass) (split_on CHR '' '' classValue)
                                         in if remainingClasses \<noteq> []
                                            then update_attr ''className''
                                                   (Some (Lit StringLiteral (JString (join_space remainingClasses))))
                                                   attrs1
                                            else filter (\<lambda>a. attr_name a \<noteq> Some ''className'') attrs1),
                                        c), True)))
                  | other \<Rightarrow> if truthy other then Inl TypeError else Inr (el, hasChanges))
             | _ \<Rightarrow> Inr (el, hasChanges)))"

subsection \<open>Pass 5: the severity of an Alert\<close>

definition deep_alert :: "head \<Rightarrow> bool \<Rightarrow> error + head \<times> bool" where
  "deep_alert el hasChanges =
     (case el of
        (n, attrs, c) \<Rightarrow>
          if n \<noteq> JSXIdentifier ''Alert'' then Inr (el, hasChanges)
          else
            (case find_attr ''variant'' attrs of
               Some (JSXAttribute vn (Some v)) \<Rightarrow>
                 (case node_value v of
                    JString variant \<Rightarrow>
                      (case js_get severityMap variant of
                         Own m \<Rightarrow>
                           Inr ((n, replace_attr ''variant''
                                      (JSXAttribute ''severity'' (Some (set_value (JString m) v))) attrs, c),
                                True)
                       | Inherited \<Rightarrow>
                           Inr ((n, replace_attr ''variant''
                                      (JSXAttribute ''severity'' (Some (set_value (JInherited variant) v))) attrs, c),
                                True)
                       | Absent \<Rightarrow> Inr (el, hasChanges))
                  | other \<Rightarrow> Inr (el, hasChanges))
             | _ \<Rightarrow> Inr (el, hasChanges)))"

subsection \<open>Pass 6: a fluid Container\<close>

definition deep_container :: "head \<Rightarrow> bool \<Rightarrow> error + head \<times> bool" where
  "deep_container el hasChanges =
     (case el of
        (n, attrs, c) \<Rightarrow>
          if n = JSXIdentifier ''Container'' \<and> find_attr ''fluid'' attrs \<noteq> None
          then Inr ((n, filter (\<lambda>a. attr_name a \<noteq> Some ''fluid'') attrs @
                        [JSXAttribute ''maxWidth''
                           (Some (JSXExpressionContainer (Lit BooleanLiteral (JBoolean False))))], c),
                    True)
          else Inr (el, hasChanges))"

subsection \<open>Pass 7: the MUI imports\<close>

text \<open>
  The names of the elements that some entry of a table maps to, each once, in the order
  the walk first meets them.
\<close>

definition deep_used :: "head \<Rightarrow> string list \<Rightarrow> error + head \<times> string list" where
  "deep_used el usedComponents =
     (case fst el of
        JSXIdentifier name \<Rightarrow>
          if name \<in> cfg_name ` snd ` set (COMPONENT_MAP @ SUBCOMPONENT_MAP)
          then Inr (el, if name \<in> set usedComponents then usedComponents else usedComponents @ [name])
          else Inr (el, usedComponents)
      | _ \<Rightarrow> Inr (el, usedComponents))"

fun extend_import :: "string \<Rightarrow> string \<Rightarrow> import_decl list \<Rightarrow> import_decl list" where
  "extend_import src componentName [] = []"
| "extend_import src componentName (d # ds) =
     (if source d = src
      then (if componentName \<in> local_name ` set (specifiers d) then d
            else d\<lparr>specifiers := specifiers d @ [ImportDefaultSpecifier componentName]\<rparr>) # ds
      else d # extend_import src componentName ds)"

text \<open>
  A new declaration goes after the last import; with no import in the file it becomes the
  first statement.
\<close>

definition deep_addImport :: "string \<Rightarrow> string \<Rightarrow> import_decl list \<Rightarrow> import_decl list" where
  "deep_addImport src componentName decls =
     (if \<exists>d \<in> set decls. source d = src then extend_import src componentName decls
      else decls @ [\<lparr>source = src, specifiers = [ImportDefaultSpecifier componentName]\<rparr>])"

definition deep_import_of :: "string \<Rightarrow> import_decl list \<Rightarrow> import_decl list" where
  "deep_import_of componentName decls =
     (case find (\<lambda>cfg. cfg_name cfg = componentName) (map snd (COMPONENT_MAP @ SUBCOMPONENT_MAP)) of
        None \<Rightarrow> decls
      | Some cfg \<Rightarrow> deep_addImport (cfg_import cfg) componentName decls)"

definition deep_add_imports :: "string list \<Rightarrow> import_decl list \<Rightarrow> import_decl list" where
  "deep_add_imports usedComponents decls =
     (let decls' = fold deep_import_of usedComponents decls
      in if usedComponents \<noteq> [] then deep_addImport ''@mui/material/styles'' ''ThemeProvider'' decls'
         else decls')"

subsection \<open>The transform\<close>

definition and_then :: "error + 'a \<Rightarrow> ('a \<Rightarrow> error + 'b) \<Rightarrow> error + 'b" where
  "and_then r k = (case r of Inl err \<Rightarrow> Inl err | Inr v \<Rightarrow> k v)"

definition deep_transform :: "host \<Rightarrow> program \<Rightarrow> error + result" where
  "deep_transform h p =
     (case deep_remove_imports (import_decls p) of
        (decls1, c1) \<Rightarrow>
          and_then (deep_passes (deep_component h) COMPONENT_MAP (roots p) c1) (\<lambda>(es2, c2).
          and_then (deep_passes deep_subcomponent SUBCOMPONENT_MAP es2 c2) (\<lambda>(es3, c3).
          and_then (walk_elements deep_col es3 c3) (\<lambda>(es4, c4).
          and_then (walk_elements deep_alert es4 c4) (\<lambda>(es5, c5).
          and_then (walk_elements deep_container es5 c5) (\<lambda>(es6, hasChanges).
            if hasChanges
            then and_then (walk_elements deep_used es6 []) (\<lambda>(es7, usedComponents).
                   Inr (Changed (p\<lparr>import_decls := deep_add_imports usedComponents decls1,
                                   roots := es6\<rparr>)))
            else Inr Unchanged))))))"

section \<open>bootstrap\_mui\_claude.js\<close>

text \<open>
  The script's variables: the import declarations of the file and \<open>hasChanges\<close>.
\<close>

record st =
  st_imports :: "import_decl list"
  st_changed :: bool

subsection \<open>Tables\<close>

definition BUTTON_VARIANTS :: "(string \<times> string \<times> string) list" where
  "BUTTON_VARIANTS =
     [(''primary'', ''contained'', ''primary''), (''secondary'', ''contained'', ''secondary''),
      (''success'', ''contained'', ''success''), (''danger'', ''contained'', ''error''),
      (''warning'', ''contained'', ''warning''), (''info'', ''contained'', ''info''),
      (''light'', ''outlined'', ''inherit''), (''dark'', ''contained'', ''inherit''),
      (''link'', ''text'', ''primary''), (''outline-primary'', ''outlined'', ''primary''),
      (''outline-secondary'', ''outlined'', ''secondary'')]"

definition SIZE_MAP :: "(string \<times> string) list" where
  "SIZE_MAP = [(''sm'', ''small''), (''lg'', ''large'')]"

definition ALERT_SEVERITY :: "(string \<times> string) list" where
  "ALERT_SEVERITY =
     [(''primary'', ''info''), (''secondary'', ''info''), (''success'', ''success''),
      (''danger'', ''error''), (''warning'', ''warning''), (''info'', ''info'')]"

text \<open>
  A rule of \<open>CLASS_TO_SX\<close>: \<open>Digit lit k\<close> is \<open>/\blit(\d)\b/g\<close> giving \<open>{k: Number(m[1])}\<close>,
  \<open>Fixed lit k v\<close> is \<open>/\blit\b/g\<close> giving \<open>{k: v}\<close>.
\<close>

datatype rule = Digit string string | Fixed string string string

definition CLASS_TO_SX :: "rule list" where
  "CLASS_TO_SX =
     [Digit ''mb-'' ''mb'', Digit ''mt-'' ''mt'', Digit ''ms-'' ''ml'', Digit ''me-'' ''mr'',
      Digit ''mx-'' ''mx'', Digit ''my-'' ''my'', Digit ''p-'' ''p'', Digit ''px-'' ''px'',
      Digit ''py-'' ''py'', Digit ''pt-'' ''pt'', Digit ''pb-'' ''pb'',
      Fixed ''d-flex'' ''display'' ''flex'', Fixed ''d-none'' ''display'' ''none'',
      Fixed ''text-center'' ''textAlign'' ''center'',
      Fixed ''justify-content-center'' ''justifyContent'' ''center'',
      Fixed ''align-items-center'' ''alignItems'' ''center'',
      Fixed ''flex-column'' ''flexDirection'' ''column'', Digit ''gap-'' ''gap'']"

subsection \<open>The regular expressions\<close>

text \<open>
  Every pattern starts and ends with a word character, so \<open>\b\<close> in front asks for no
  word character before the match, and \<open>\b\<close> behind for none after it.
\<close>

definition is_word :: "char \<Rightarrow> bool" where
  "is_word c =
     (c \<in> set ''abcdefghijklmnopqrstuvwxyzABCDEFGHIJKLMNOPQRSTUVWXYZ0123456789_'')"

definition at_boundary :: "string \<Rightarrow> bool" where
  "at_boundary s = (case s of [] \<Rightarrow> True | c # cs \<Rightarrow> \<not> is_word c)"

text \<open>
  The match of a rule at the head of \<open>s\<close>: the object it derives and the number of
  characters it spans.
\<close>

fun match_here :: "rule \<Rightarrow> string \<Rightarrow> (sx \<times> nat) option" where
  "match_here (Fixed lit k v) s =
     (if starts_with s lit \<and> at_boundary (drop (length lit) s)
      then Some ([(k, SxStr v)], length lit) else None)"
| "match_here (Digit lit k) s =
     (if starts_with s lit
      then (case drop (length lit) s of
              [] \<Rightarrow> None
            | d # rest \<Rightarrow>
                if is_digit d \<and> at_boundary rest
                then Some ([(k, SxNum (digit_value d))], length lit + 1) else None)
      else None)"

text \<open>
  One run of a global expression over \<open>s\<close>, as the \<open>exec\<close> loop and \<open>replace\<close> both make
  it: the matches from left to right, and \<open>s\<close> with every match replaced by \<open>rep\<close>.
  \<open>prev\<close> tells whether the character before is a word character, \<open>skip\<close> how many
  characters of the running match are still to pass.
\<close>

fun scan :: "rule \<Rightarrow> string \<Rightarrow> bool \<Rightarrow> nat \<Rightarrow> string \<Rightarrow> sx list \<times> string" where
  "scan r rep prev skip [] = ([], [])"
| "scan r rep prev skip (c # cs) =
     (if 0 < skip then scan r rep True (skip - 1) cs
      else if prev then (case scan r rep (is_word c) 0 cs of (ms, out) \<Rightarrow> (ms, c # out))
      else
        (case match_here r (c # cs) of
           Some (obj, n) \<Rightarrow> (case scan r rep True (n - 1) cs of (ms, out) \<Rightarrow> (obj # ms, rep @ out))
         | None \<Rightarrow> (case scan r rep (is_word c) 0 cs of (ms, out) \<Rightarrow> (ms, c # out))))"

text \<open>
  \<open>CLASS_TO_SX.forEach(rule => { while ((m = rule.re.exec(cls)) !== null)
  Object.assign(sxObj, rule.sx(m)); cls = cls.replace(rule.re, '').trim(); })\<close>
\<close>

fun apply_rules :: "rule list \<Rightarrow> string \<Rightarrow> sx \<times> string \<Rightarrow> sx \<times> string" where
  "apply_rules [] rep acc = acc"
| "apply_rules (r # rs) rep (sxObj, cls) =
     (case scan r rep False 0 cls of
        (ms, out) \<Rightarrow> apply_rules rs rep (fold (\<lambda>obj acc. object_assign acc obj) ms sxObj, js_trim out))"

subsection \<open>Helpers\<close>

definition addMUIImport :: "string \<Rightarrow> import_decl list \<Rightarrow> import_decl list" where
  "addMUIImport componentName decls =
     (if \<exists>d \<in> set decls. source d = ''@mui/material/'' @ componentName then decls
      else \<lparr>source = ''@mui/material/'' @ componentName,
            specifiers = [ImportDefaultSpecifier componentName]\<rparr> # decls)"

text \<open>
  \<open>props.find(p => p.key?.name === k)\<close> does not throw on a spread element. The literals
  are those of bootstrap\_mui\_deep.js.
\<close>

fun mergeSx_entries :: "sx \<Rightarrow> property list \<Rightarrow> property list" where
  "mergeSx_entries [] ps = ps"
| "mergeSx_entries (e # es) ps =
     (if \<exists>p \<in> set ps. prop_key_name p = Some (fst e) then mergeSx_entries es ps
      else mergeSx_entries es (ps @ [deep_property e]))"

definition mergeSxProp :: "attr list \<Rightarrow> sx \<Rightarrow> attr list" where
  "mergeSxProp attrs sxObj =
     (if sxObj = [] then attrs
      else
        (case find_attr ''sx'' attrs of
           None \<Rightarrow>
             attrs @ [JSXAttribute ''sx''
                        (Some (JSXExpressionContainer (ObjectExpression (map deep_property sxObj))))]
         | Some (JSXAttribute n (Some (JSXExpressionContainer (ObjectExpression ps)))) \<Rightarrow>
             update_attr ''sx''
               (Some (JSXExpressionContainer (ObjectExpression (mergeSx_entries sxObj ps)))) attrs
         | Some other \<Rightarrow> attrs))"

definition removeBootstrapImports :: "st \<Rightarrow> st" where
  "removeBootstrapImports s =
     \<lparr>st_imports = filter (\<lambda>d. \<not> (source d = ''react-bootstrap''
                                    \<or> js_includes (source d) ''bootstrap/dist/css'')) (st_imports s),
      st_changed = True\<rparr>"

text \<open>\<open>table[attr.value.value]\<close>: a value that is not a string is a key no table has.\<close>

definition lookup_value :: "(string \<times> 'a) list \<Rightarrow> jsval \<Rightarrow> 'a member" where
  "lookup_value table v = (case v of JString s \<Rightarrow> js_get table s | _ \<Rightarrow> Absent)"

definition string_attr :: "string \<Rightarrow> string \<Rightarrow> attr" where
  "string_attr n v = JSXAttribute n (Some (Lit StringLiteral (JString v)))"

subsection \<open>transformButtons\<close>

text \<open>
  What one attribute contributes to \<open>newAttrs\<close>, and whether it sets \<open>hasVariant\<close>. An
  inherited member has no \<open>variant\<close>, and \<open>j.stringLiteral\<close> refuses \<open>undefined\<close> as it
  refuses a function.
\<close>

fun button_attr :: "attr \<Rightarrow> error + attr list \<times> bool" where
  "button_attr (JSXSpreadAttribute e) = Inr ([JSXSpreadAttribute e], False)"
| "button_attr (JSXAttribute n (Some (Lit Literal v))) =
     (if n = ''variant'' then
        (case lookup_value BUTTON_VARIANTS v of
           Own muiProps \<Rightarrow>
             Inr ([string_attr ''variant'' (fst muiProps), string_attr ''color'' (snd muiProps)], True)
         | Inherited \<Rightarrow> Inl BuilderError
         | Absent \<Rightarrow> Inr ([], True))
      else if n = ''size'' then
        (case lookup_value SIZE_MAP v of
           Own muiSize \<Rightarrow> Inr ([string_attr ''size'' muiSize], False)
         | Inherited \<Rightarrow> Inl BuilderError
         | Absent \<Rightarrow> Inr ([JSXAttribute n (Some (Lit Literal v))], False))
      else Inr ([JSXAttribute n (Some (Lit Literal v))], False))"
| "button_attr (JSXAttribute n v) = Inr ([JSXAttribute n v], False)"

fun button_attrs :: "attr list \<Rightarrow> error + attr list \<times> bool" where
  "button_attrs [] = Inr ([], False)"
| "button_attrs (a # as) =
     (case button_attr a of
        Inl err \<Rightarrow> Inl err
      | Inr (new, v) \<Rightarrow>
          (case button_attrs as of
             Inl err \<Rightarrow> Inl err
           | Inr (newAttrs, hasVariant) \<Rightarrow> Inr (new @ newAttrs, v \<or> hasVariant)))"

definition transformButtons :: "head \<Rightarrow> st \<Rightarrow> error + head \<times> st" where
  "transformButtons el s =
     (case el of
        (n, attrs, c) \<Rightarrow>
          if n \<noteq> JSXIdentifier ''Button'' then Inr (el, s)
          else
            (case button_attrs attrs of
               Inl err \<Rightarrow> Inl err
             | Inr (newAttrs, hasVariant) \<Rightarrow>
                 Inr ((n, if hasVariant then newAttrs
                          else string_attr ''variant'' ''contained'' # newAttrs, c),
                      \<lparr>st_imports = addMUIImport ''Button'' (st_imports s), st_changed = True\<rparr>)))"

subsection \<open>transformAlerts\<close>

fun alert_attr :: "attr \<Rightarrow> error + attr" where
  "alert_attr (JSXAttribute n (Some (Lit Literal v))) =
     (if n = ''variant'' then
        (case lookup_value ALERT_SEVERITY v of
           Own severity \<Rightarrow> Inr (string_attr ''severity'' severity)
         | Inherited \<Rightarrow> Inl BuilderError
         | Absent \<Rightarrow> Inr (string_attr ''severity'' ''info''))
      else Inr (JSXAttribute n (Some (Lit Literal v))))"
| "alert_attr a = Inr a"

definition transformAlerts :: "head \<Rightarrow> st \<Rightarrow> error + head \<times> st" where
  "transformAlerts el s =
     (case el of
        (n, attrs, c) \<Rightarrow>
          if n \<noteq> JSXIdentifier ''Alert'' then Inr (el, s)
          else
            (case sequence (map alert_attr attrs) of
               Inl err \<Rightarrow> Inl err
             | Inr attrs' \<Rightarrow>
                 Inr ((n, attrs', c),
                      \<lparr>st_imports = addMUIImport ''Alert'' (st_imports s), st_changed = True\<rparr>)))"

subsection \<open>transformModals\<close>

text \<open>
  \<open>if (attr.name.name === 'show') attr.name.name = 'open'; if (attr.name.name ===
  'onHide') attr.name.name = 'onClose';\<close>
\<close>

fun modal_attr :: "attr \<Rightarrow> attr" where
  "modal_attr (JSXAttribute n v) =
     (if n = ''show'' then JSXAttribute ''open'' v
      else if n = ''onHide'' then JSXAttribute ''onClose'' v
      else JSXAttribute n v)"
| "modal_attr a = a"

text \<open>The Dialog part that a name \<open>Modal.Header\<close>, \<open>Modal.Title\<close>, \<open>Modal.Body\<close> or
  \<open>Modal.Footer\<close> becomes.\<close>

fun modal_part :: "jsx_name \<Rightarrow> string option" where
  "modal_part (JSXMemberExpression (JSXIdentifier obj) prop) =
     (if obj \<noteq> ''Modal'' then None
      else if prop = ''Header'' \<or> prop = ''Title'' then Some ''DialogTitle''
      else if prop = ''Body'' then Some ''DialogContent''
      else if prop = ''Footer'' then Some ''DialogActions''
      else None)"
| "modal_part other = None"

text \<open>
  The callback maps over the direct children of the Modal. For a child that is one of the
  four parts it sets the opening name, then the name of \<open>child.closingElement\<close>, which
  throws when the child is self-closing, then calls \<open>addMUIImport\<close>.
\<close>

fun modal_child :: "child \<Rightarrow> error + child \<times> string list" where
  "modal_child (ChildElement (JSXElement n a c ch)) =
     (case modal_part n of
        None \<Rightarrow> Inr (ChildElement (JSXElement n a c ch), [])
      | Some part \<Rightarrow>
          (case c of
             None \<Rightarrow> Inl TypeError
           | Some old \<Rightarrow>
               Inr (ChildElement (JSXElement (JSXIdentifier part) a (Some (JSXIdentifier part)) ch),
                    [part])))"
| "modal_child other = Inr (other, [])"

text \<open>
  The walk of \<open>transformModals\<close>. The elements named \<open>Modal\<close> were collected before any
  callback ran, and a callback renames only children that are member expressions, which
  were not collected: so the children are visited as they were, and the renaming of the
  parts is applied to what the visits return.
\<close>

fun transformModals :: "element \<Rightarrow> st \<Rightarrow> error + element \<times> st"
  and transformModals_children :: "child list \<Rightarrow> st \<Rightarrow> error + child list \<times> st"
  and transformModals_child :: "child \<Rightarrow> st \<Rightarrow> error + child \<times> st"
  and transformModals_elements :: "element list \<Rightarrow> st \<Rightarrow> error + element list \<times> st"
where
  "transformModals (JSXElement n a c ch) s =
     (if n = JSXIdentifier ''Modal'' then
        (case sequence (map modal_child ch) of
           Inl err \<Rightarrow> Inl err
         | Inr renamed \<Rightarrow>
             (case transformModals_children ch
                     \<lparr>st_imports = addMUIImport ''Dialog''
                                     (fold addMUIImport (concat (map snd renamed)) (st_imports s)),
                      st_changed = True\<rparr> of
                Inl err \<Rightarrow> Inl err
              | Inr (ch', s') \<Rightarrow>
                  (case sequence (map modal_child ch') of
                     Inl err \<Rightarrow> Inl err
                   | Inr renamed' \<Rightarrow>
                       Inr (JSXElement (JSXIdentifier ''Dialog'') (map modal_attr a)
                              (map_option (rename_identifier ''Dialog'') c) (map fst renamed'), s'))))
      else
        (case transformModals_children ch s of
           Inl err \<Rightarrow> Inl err
         | Inr (ch', s') \<Rightarrow> Inr (JSXElement n a c ch', s')))"
| "transformModals_children [] s = Inr ([], s)"
| "transformModals_children (x # xs) s =
     (case transformModals_child x s of
        Inl err \<Rightarrow> Inl err
      | Inr (x', s1) \<Rightarrow>
          (case transformModals_children xs s1 of
             Inl err \<Rightarrow> Inl err
           | Inr (xs', s2) \<Rightarrow> Inr (x' # xs', s2)))"
| "transformModals_child (ChildElement e) s =
     (case transformModals e s of
        Inl err \<Rightarrow> Inl err
      | Inr (e', s1) \<Rightarrow> Inr (ChildElement e', s1))"
| "transformModals_child (JSXText t) s = Inr (JSXText t, s)"
| "transformModals_child (JSXExpressionChild code es) s =
     (case transformModals_elements es s of
        Inl err \<Rightarrow> Inl err
      | Inr (es', s1) \<Rightarrow> Inr (JSXExpressionChild code es', s1))"
| "transformModals_elements [] s = Inr ([], s)"
| "transformModals_elements (e # es) s =
     (case transformModals e s of
        Inl err \<Rightarrow> Inl err
      | Inr (e', s1) \<Rightarrow>
          (case transformModals_elements es s1 of
             Inl err \<Rightarrow> Inl err
           | Inr (es', s2) \<Rightarrow> Inr (e' # es', s2)))"

subsection \<open>transformGrid\<close>

definition has_attr :: "string \<Rightarrow> attr list \<Rightarrow> bool" where
  "has_attr n attrs = (\<exists>a \<in> set attrs. attr_name a = Some n)"

definition transformRow :: "head \<Rightarrow> st \<Rightarrow> error + head \<times> st" where
  "transformRow el s =
     (case el of
        (n, attrs, c) \<Rightarrow>
          if n \<noteq> JSXIdentifier ''Row'' then Inr (el, s)
          else
            (let attrs1 = (if has_attr ''container'' attrs then attrs
                           else attrs @ [JSXAttribute ''container'' None]);
                 attrs2 = (if has_attr ''spacing'' attrs1 then attrs1
                           else attrs1 @ [JSXAttribute ''spacing''
                                  (Some (JSXExpressionContainer (Lit NumericLiteral (JNumber 2))))])
             in Inr ((JSXIdentifier ''Grid'', attrs2, map_option (rename_identifier ''Grid'') c),
                     \<lparr>st_imports = addMUIImport ''Grid'' (st_imports s), st_changed = True\<rparr>)))"

definition transformCol :: "head \<Rightarrow> st \<Rightarrow> error + head \<times> st" where
  "transformCol el s =
     (case el of
        (n, attrs, c) \<Rightarrow>
          if n \<noteq> JSXIdentifier ''Col'' then Inr (el, s)
          else
            Inr ((JSXIdentifier ''Grid'',
                  if has_attr ''item'' attrs then attrs else JSXAttribute ''item'' None # attrs,
                  map_option (rename_identifier ''Grid'') c),
                 \<lparr>st_imports = addMUIImport ''Grid'' (st_imports s), st_changed = True\<rparr>))"

subsection \<open>transformContainer\<close>

text \<open>\<open>attrs.splice(fluidIdx, 1)\<close> removes the first attribute named \<open>fluid\<close>.\<close>

fun remove_first_attr :: "string \<Rightarrow> attr list \<Rightarrow> attr list" where
  "remove_first_attr n [] = []"
| "remove_first_attr n (a # as) =
     (if attr_name a = Some n then as else a # remove_first_attr n as)"

definition transformContainer :: "head \<Rightarrow> st \<Rightarrow> error + head \<times> st" where
  "transformContainer el s =
     (case el of
        (n, attrs, c) \<Rightarrow>
          if n \<noteq> JSXIdentifier ''Container'' then Inr (el, s)
          else if has_attr ''fluid'' attrs
          then Inr ((n, remove_first_attr ''fluid'' attrs @
                        [JSXAttribute ''maxWidth''
                           (Some (JSXExpressionContainer (Lit BooleanLiteral (JBoolean False))))], c),
                    \<lparr>st_imports = addMUIImport ''Container'' (st_imports s), st_changed = True\<rparr>)
          else Inr (el, s\<lparr>st_imports := addMUIImport ''Container'' (st_imports s)\<rparr>))"

subsection \<open>transformCards and transformFormControls\<close>

definition renamed_to :: "string \<Rightarrow> attr list \<Rightarrow> jsx_name option \<Rightarrow> st \<Rightarrow> error + head \<times> st" where
  "renamed_to new attrs c s =
     Inr ((JSXIdentifier new, attrs, map_option (\<lambda>old. JSXIdentifier new) c),
          \<lparr>st_imports = addMUIImport new (st_imports s), st_changed = True\<rparr>)"

fun transformCards :: "head \<Rightarrow> st \<Rightarrow> error + head \<times> st" where
  "transformCards (JSXMemberExpression (JSXIdentifier obj) prop, attrs, c) s =
     (if obj \<noteq> ''Card'' then Inr ((JSXMemberExpression (JSXIdentifier obj) prop, attrs, c), s)
      else if prop = ''Body'' then renamed_to ''CardContent'' attrs c s
      else if prop = ''Header'' then renamed_to ''CardHeader'' attrs c s
      else if prop = ''Title'' then
        renamed_to ''Typography''
          (attrs @ [string_attr ''variant'' ''h5'', string_attr ''component'' ''div'']) c s
      else Inr ((JSXMemberExpression (JSXIdentifier obj) prop, attrs, c), s))"
| "transformCards (JSXIdentifier n, attrs, c) s =
     (if n = ''Card''
      then Inr ((JSXIdentifier n, attrs, c), s\<lparr>st_imports := addMUIImport ''Card'' (st_imports s)\<rparr>)
      else Inr ((JSXIdentifier n, attrs, c), s))"
| "transformCards el s = Inr (el, s)"

fun transformFormControls :: "head \<Rightarrow> st \<Rightarrow> error + head \<times> st" where
  "transformFormControls (JSXMemberExpression (JSXIdentifier obj) prop, attrs, c) s =
     (if obj = ''Form'' \<and> prop = ''Control'' then renamed_to ''TextField'' attrs c s
      else Inr ((JSXMemberExpression (JSXIdentifier obj) prop, attrs, c), s))"
| "transformFormControls el s = Inr (el, s)"

subsection \<open>transformClassNamesToSx\<close>

text \<open>
  The callback runs once for every attribute named \<open>className\<close>, in document order; the
  attributes of one element follow each other. It reads the value of its own attribute
  node, merges into the \<open>sx\<close> of the element, and then either writes the rest of the
  classes to its own node or filters every \<open>className\<close> out of the element. After such a
  filter the nodes of the later callbacks are no longer in the element, and what those
  callbacks write to them is not in the tree.
\<close>

fun set_nth_attr :: "string \<Rightarrow> nat \<Rightarrow> node option \<Rightarrow> attr list \<Rightarrow> attr list" where
  "set_nth_attr n k v [] = []"
| "set_nth_attr n k v (a # as) =
     (if attr_name a = Some n
      then (case k of 0 \<Rightarrow> JSXAttribute n v # as | Suc k' \<Rightarrow> a # set_nth_attr n k' v as)
      else a # set_nth_attr n k v as)"

text \<open>
  The state of one element: its attributes, whether the \<open>className\<close> attributes have been
  filtered out, and whether \<open>hasChanges\<close> was set. \<open>k\<close> counts the \<open>className\<close> attributes
  before this one.
\<close>

fun class_attr :: "nat \<Rightarrow> node option \<Rightarrow> attr list \<times> bool \<times> bool \<Rightarrow> attr list \<times> bool \<times> bool" where
  "class_attr k (Some (Lit Literal (JString val))) (attrs, detached, changed) =
     (case apply_rules CLASS_TO_SX [] ([], val) of
        (sxObj, cls) \<Rightarrow>
          if sxObj = [] then (attrs, detached, changed)
          else if cls \<noteq> [] then
            (if detached then (mergeSxProp attrs sxObj, True, True)
             else (set_nth_attr ''className'' k (Some (Lit StringLiteral (JString cls)))
                     (mergeSxProp attrs sxObj), False, True))
          else (filter (\<lambda>a. attr_name a \<noteq> Some ''className'') (mergeSxProp attrs sxObj), True, True))"
| "class_attr k v acc = acc"

text \<open>The values of the attributes named \<open>className\<close>, numbered in order.\<close>

definition class_values :: "attr list \<Rightarrow> (nat \<times> node option) list" where
  "class_values attrs =
     (let vs = concat (map (\<lambda>a. case a of
                               JSXAttribute n v \<Rightarrow> if n = ''className'' then [v] else []
                             | JSXSpreadAttribute e \<Rightarrow> []) attrs)
      in zip [0..<length vs] vs)"

definition class_attrs :: "attr list \<Rightarrow> attr list \<times> bool" where
  "class_attrs attrs =
     (case fold (\<lambda>kv. class_attr (fst kv) (snd kv)) (class_values attrs) (attrs, False, False) of
        (attrs', detached, changed) \<Rightarrow> (attrs', changed))"

definition transformClassNamesToSx :: "head \<Rightarrow> st \<Rightarrow> error + head \<times> st" where
  "transformClassNamesToSx el s =
     (case el of
        (n, attrs, c) \<Rightarrow>
          (case class_attrs attrs of
             (attrs', changed) \<Rightarrow>
               Inr ((n, attrs', c), if changed then s\<lparr>st_changed := True\<rparr> else s)))"

subsection \<open>The transform\<close>

definition claude_pass :: "(head \<Rightarrow> st \<Rightarrow> error + head \<times> st) \<Rightarrow> element list \<times> st \<Rightarrow> error + element list \<times> st" where
  "claude_pass visit r = walk_elements visit (fst r) (snd r)"

definition bootstrap_mui_claude :: "program \<Rightarrow> error + result" where
  "bootstrap_mui_claude p =
     and_then (claude_pass transformButtons
                 (roots p, removeBootstrapImports \<lparr>st_imports = import_decls p, st_changed = False\<rparr>)) (\<lambda>r1.
     and_then (claude_pass transformAlerts r1) (\<lambda>r2.
     and_then (transformModals_elements (fst r2) (snd r2)) (\<lambda>r3.
     and_then (claude_pass transformRow r3) (\<lambda>r4.
     and_then (claude_pass transformCol r4) (\<lambda>r5.
     and_then (claude_pass transformContainer r5) (\<lambda>r6.
     and_then (claude_pass transformCards r6) (\<lambda>r7.
     and_then (claude_pass transformFormControls r7) (\<lambda>r8.
     and_then (claude_pass transformClassNamesToSx r8) (\<lambda>r9.
       Inr (if st_changed (snd r9)
            then Changed (p\<lparr>import_decls := st_imports (snd r9), roots := fst r9\<rparr>)
            else Unchanged))))))))))"

section \<open>react-bootstrap-to-mui\_claude.js\<close>

text \<open>\<open>componentMap\<close>: the MUI module of a component, or \<open>null\<close>.\<close>

definition rbc_componentMap :: "(string \<times> string option) list" where
  "rbc_componentMap =
     [(''Container'', Some ''@mui/material/Container''), (''Row'', None),
      (''Col'', Some ''@mui/material/Grid''), (''Button'', Some ''@mui/material/Button''),
      (''ButtonGroup'', Some ''@mui/material/ButtonGroup''), (''Form'', None),
      (''FormControl'', Some ''@mui/material/FormControl''),
      (''FormGroup'', Some ''@mui/material/FormGroup''),
      (''FormLabel'', Some ''@mui/material/FormLabel''),
      (''FormCheck'', Some ''@mui/material/Checkbox''),
      (''InputGroup'', Some ''@mui/material/TextField''), (''Nav'', Some ''@mui/material/Tabs''),
      (''Navbar'', Some ''@mui/material/AppBar''), (''NavDropdown'', Some ''@mui/material/Menu''),
      (''Alert'', Some ''@mui/material/Alert''), (''Badge'', Some ''@mui/material/Badge''),
      (''Card'', Some ''@mui/material/Card''), (''CardBody'', Some ''@mui/material/CardContent''),
      (''CardHeader'', Some ''@mui/material/CardHeader''),
      (''CardFooter'', Some ''@mui/material/CardActions''),
      (''Dropdown'', Some ''@mui/material/Select''), (''Modal'', Some ''@mui/material/Dialog''),
      (''ModalHeader'', Some ''@mui/material/DialogTitle''),
      (''ModalBody'', Some ''@mui/material/DialogContent''),
      (''ModalFooter'', Some ''@mui/material/DialogActions''),
      (''Spinner'', Some ''@mui/material/CircularProgress''), (''Table'', Some ''@mui/material/Table''),
      (''Toast'', Some ''@mui/material/Snackbar''), (''Tooltip'', Some ''@mui/material/Tooltip''),
      (''Pagination'', Some ''@mui/material/Pagination''),
      (''ProgressBar'', Some ''@mui/material/LinearProgress''),
      (''ListGroup'', Some ''@mui/material/List''), (''ListGroupItem'', Some ''@mui/material/ListItem'')]"

text \<open>A list as a \<open>Set\<close> keeps it: each value once, at its first place.\<close>

definition as_set :: "'a list \<Rightarrow> 'a list" where
  "as_set xs = rev (remdups (rev xs))"

text \<open>The names imported by name from \<open>react-bootstrap\<close>.\<close>

definition rbc_bootstrapImports :: "import_decl list \<Rightarrow> string list" where
  "rbc_bootstrapImports decls =
     as_set (concat (map (\<lambda>d. concat (map (\<lambda>sp. case sp of ImportSpecifier i l \<Rightarrow> [i] | _ \<Rightarrow> [])
                                            (specifiers d)))
                         (filter (\<lambda>d. source d = ''react-bootstrap'') decls)))"

text \<open>\<open>!localComponents.has(name) && componentMap[name]\<close>\<close>

definition rbc_componentsToReplace :: "program \<Rightarrow> string list" where
  "rbc_componentsToReplace p =
     filter (\<lambda>name. name \<notin> set (local_decls p)
                    \<and> (case js_get rbc_componentMap name of
                          Own path \<Rightarrow> path \<noteq> None | Inherited \<Rightarrow> True | Absent \<Rightarrow> False))
            (rbc_bootstrapImports (import_decls p))"

definition rbc_muiCompName :: "string \<Rightarrow> string" where
  "rbc_muiCompName name =
     (if name = ''CardBody'' then ''CardContent''
      else if name = ''CardFooter'' then ''CardActions''
      else if name = ''FormCheck'' then ''Checkbox''
      else if name = ''Spinner'' then ''CircularProgress''
      else if name = ''ProgressBar'' then ''LinearProgress''
      else if name = ''ListGroupItem'' then ''ListItem''
      else if name = ''ModalHeader'' then ''DialogTitle''
      else if name = ''ModalBody'' then ''DialogContent''
      else if name = ''ModalFooter'' then ''DialogActions''
      else name)"

definition rbc_muiComp :: "string \<Rightarrow> string" where
  "rbc_muiComp bootstrapComp =
     (if bootstrapComp = ''Modal'' then ''Dialog'' else rbc_muiCompName bootstrapComp)"

text \<open>
  \<open>muiImports\<close>, a \<open>Map\<close> from the module to the names wanted from it. An inherited
  member is the key of an entry of its own; it is no string, and \<open>j.literal\<close> refuses it
  when the import is built.
\<close>

fun rbc_muiImports :: "string list \<Rightarrow> (string member \<times> string list) list \<Rightarrow> (string member \<times> string list) list" where
  "rbc_muiImports [] m = m"
| "rbc_muiImports (name # names) m =
     (case js_get rbc_componentMap name of
        Own (Some muiPath) \<Rightarrow>
          rbc_muiImports names
            (AList.update (Own muiPath)
               ((case map_of m (Own muiPath) of None \<Rightarrow> [] | Some ns \<Rightarrow> ns) @ [rbc_muiCompName name]) m)
      | Inherited \<Rightarrow>
          rbc_muiImports names
            (AList.update Inherited
               ((case map_of m Inherited of None \<Rightarrow> [] | Some ns \<Rightarrow> ns) @ [rbc_muiCompName name]) m)
      | _ \<Rightarrow> rbc_muiImports names m)"

fun rbc_import_statement :: "string member \<times> string list \<Rightarrow> error + import_decl" where
  "rbc_import_statement (Own src, components) =
     Inr \<lparr>source = src, specifiers = map (\<lambda>name. ImportSpecifier name name) (as_set components)\<rparr>"
| "rbc_import_statement (other, components) = Inl BuilderError"

text \<open>
  The new imports go before the first import that is left, in the order of the \<open>Map\<close>;
  with no import left none is inserted.
\<close>

definition rbc_insert_imports :: "string list \<Rightarrow> import_decl list \<Rightarrow> error + import_decl list" where
  "rbc_insert_imports names decls =
     (if decls = [] then Inr decls
      else (case sequence (map rbc_import_statement (rbc_muiImports names [])) of
              Inl err \<Rightarrow> Inl err
            | Inr new \<Rightarrow> Inr (new @ decls)))"

text \<open>
  The opening elements named \<open>bootstrapComp\<close>. \<open>attr.value.value\<close> of an attribute without
  a value throws.
\<close>

fun rbc_button_attr :: "attr \<Rightarrow> error + attr" where
  "rbc_button_attr (JSXAttribute n v) =
     (if n \<noteq> ''variant'' then Inr (JSXAttribute n v)
      else (case v of
              None \<Rightarrow> Inl TypeError
            | Some val \<Rightarrow>
                Inr (JSXAttribute n (Some
                  (if node_value val = JString ''primary'' then set_value (JString ''contained'') val
                   else if node_value val = JString ''secondary'' then set_value (JString ''outlined'') val
                   else if node_value val = JString ''link'' then set_value (JString ''text'') val
                   else val)))))"
| "rbc_button_attr a = Inr a"

definition rbc_opening :: "string \<Rightarrow> head \<Rightarrow> unit \<Rightarrow> error + head \<times> unit" where
  "rbc_opening bootstrapComp el u =
     (case el of
        (n, attrs, c) \<Rightarrow>
          if n \<noteq> JSXIdentifier bootstrapComp then Inr (el, u)
          else
            (case (if bootstrapComp = ''Button'' then sequence (map rbc_button_attr attrs) else Inr attrs) of
               Inl err \<Rightarrow> Inl err
             | Inr attrs1 \<Rightarrow>
                 (let attrs2 = (if bootstrapComp = ''Col'' then attrs1 @ [JSXAttribute ''item'' None]
                                else attrs1);
                      attrs3 = (if bootstrapComp = ''Row''
                                then attrs2 @ [JSXAttribute ''container'' None,
                                               JSXAttribute ''spacing''
                                                 (Some (JSXExpressionContainer (Lit NumericLiteral (JNumber 2))))]
                                else attrs2);
                      attrs4 = (if bootstrapComp = ''Modal''
                                then (case find_attr ''show'' attrs3 of
                                        Some (JSXAttribute sn sv) \<Rightarrow>
                                          replace_attr ''show'' (JSXAttribute ''open'' sv) attrs3
                                      | _ \<Rightarrow> attrs3)
                                else attrs3)
                  in Inr ((JSXIdentifier (if bootstrapComp = ''Row'' then ''Grid'' else rbc_muiComp bootstrapComp),
                           attrs4, c), u))))"

definition rbc_closing :: "string \<Rightarrow> head \<Rightarrow> unit \<Rightarrow> error + head \<times> unit" where
  "rbc_closing bootstrapComp el u =
     (case el of
        (n, attrs, c) \<Rightarrow>
          if c = Some (JSXIdentifier bootstrapComp)
          then Inr ((n, attrs, Some (JSXIdentifier (rbc_muiComp bootstrapComp))), u)
          else Inr (el, u))"

fun rbc_replace :: "string list \<Rightarrow> element list \<Rightarrow> error + element list" where
  "rbc_replace [] es = Inr es"
| "rbc_replace (name # names) es =
     (case walk_elements (rbc_opening name) es () of
        Inl err \<Rightarrow> Inl err
      | Inr (es1, u) \<Rightarrow>
          (case walk_elements (rbc_closing name) es1 () of
             Inl err \<Rightarrow> Inl err
           | Inr (es2, u') \<Rightarrow> rbc_replace names es2))"

text \<open>
  The transform. Past the early return \<open>hasChanges\<close> is always set: a name imported from
  \<open>react-bootstrap\<close> means a declaration that the removal finds.
\<close>

definition rbc_transform :: "program \<Rightarrow> error + result" where
  "rbc_transform p =
     (if rbc_bootstrapImports (import_decls p) = [] then Inr Unchanged
      else
        and_then (rbc_insert_imports (rbc_componentsToReplace p)
                    (filter (\<lambda>d. source d \<noteq> ''react-bootstrap'') (import_decls p))) (\<lambda>decls.
        and_then (rbc_replace (rbc_componentsToReplace p) (roots p)) (\<lambda>es.
          Inr (Changed (p\<lparr>import_decls := decls, roots := es\<rparr>)))))"

section \<open>The second script of src/unnamed: REPLACEMENTS\<close>





text \<open>\<open>cardAliases\<close>, the local names under which \<open>Card\<close> itself was imported.\<close>

definition cardAliases :: "import_decl list \<Rightarrow> string list" where
  "cardAliases decls =
     as_set (concat (map (\<lambda>d. concat (map (\<lambda>sp. case sp of
                                                  ImportSpecifier i l \<Rightarrow> if i = ''Card'' then [l] else []
                                                | _ \<Rightarrow> [])
                                            (specifiers d)))
                         (filter (\<lambda>d. source d = ''react-bootstrap'') decls)))"

section \<open>react-bootstrap-to-mui\_manus.js\<close>


text \<open>
  What a prop transformer is called with: the value of a \<open>Literal\<close>, the node of any other
  value, \<open>true\<close> for an attribute without a value.
\<close>

datatype arg = ArgValue jsval | ArgNode node





text \<open>\<open>j.literal(x)\<close> takes a string, a number, a boolean or \<open>null\<close>.\<close>

fun j_literal :: "arg \<Rightarrow> error + node" where
  "j_literal (ArgValue JUndefined) = Inl BuilderError"
| "j_literal (ArgValue (JInherited n)) = Inl BuilderError"
| "j_literal (ArgValue v) = Inr (Lit Literal v)"
| "j_literal (ArgNode n) = Inl BuilderError"











section \<open>react-bootstrap-to-mui\_gemini2.js, the first script of the file\<close>

text \<open>
  The file holds three scripts one after the other. In the first the empty array literals
  are missing (\<open>const newAttributes =;\<close>); the model reads them as \<open>[]\<close>. Of this script
  the model has the loop over the attributes of an element and the prop rules it applies.

  A rule is a string (the new name), a function of the value, or an object. A function
  returns one result or an array of them, here a list: \<open>NewAttr n v\<close> is
  \<open>{newName: n, newValue: v}\<close>, \<open>SxOutcome\<close> is \<open>{type: 'sx', value: ...}\<close>.
\<close>

datatype outcome = NewAttr string jsval | SxOutcome

datatype prop_rule =
    RuleString string
  | RuleFunction "jsval \<Rightarrow> error + outcome list"
  | RuleObject

text \<open>\<open>value.startsWith\<close> is a method of strings only.\<close>

fun gemini_variant :: "jsval \<Rightarrow> error + outcome list" where
  "gemini_variant (JString v) =
     Inr [NewAttr ''variant'' (JString (if starts_with v ''outline-'' then ''outlined'' else ''contained'')),
          NewAttr ''color'' (JString (if starts_with v ''outline-'' then drop 8 v else v))]"
| "gemini_variant other = Inl TypeError"

definition gemini_size :: "jsval \<Rightarrow> error + outcome list" where
  "gemini_size v =
     Inr [NewAttr ''size'' (JString (if v = JString ''lg'' then ''large''
                                     else if v = JString ''sm'' then ''small'' else ''medium''))]"

definition gemini_Button_propMap :: "(string \<times> prop_rule) list" where
  "gemini_Button_propMap =
     [(''variant'', RuleFunction gemini_variant), (''size'', RuleFunction gemini_size),
      (''active'', RuleString ''active''), (''disabled'', RuleString ''disabled'')]"

definition gemini_Card_propMap :: "(string \<times> prop_rule) list" where
  "gemini_Card_propMap =
     [(''bg'', RuleFunction (\<lambda>v. Inr [SxOutcome])), (''border'', RuleFunction (\<lambda>v. Inr [SxOutcome])),
      (''text'', RuleFunction (\<lambda>v. Inr [SxOutcome]))]"

definition gemini_Modal_propMap :: "(string \<times> prop_rule) list" where
  "gemini_Modal_propMap =
     [(''show'', RuleString ''open''), (''onHide'', RuleString ''onClose''),
      (''size'', RuleFunction (\<lambda>v. Inr [NewAttr ''maxWidth'' v])),
      (''centered'', RuleObject),
      (''keyboard'', RuleFunction (\<lambda>v. Inr [NewAttr ''disableEscapeKeyDown'' (JBoolean (\<not> truthy v))]))]"

text \<open>
  \<open>attr.value.expression?.value ?? attr.value.value\<close>, which throws for an attribute
  without a value.
\<close>

fun gemini_value :: "node option \<Rightarrow> error + jsval" where
  "gemini_value None = Inl TypeError"
| "gemini_value (Some (JSXExpressionContainer e)) =
     Inr (if node_value e = JNull then JUndefined else node_value e)"
| "gemini_value (Some n) = Inr (node_value n)"

text \<open>
  One result of a rule function. For an \<open>sx\<close> result the script calls \<open>j.identifier\<close> with
  the array \<open>Object.keys(res.value)\<close>, which the builder refuses.
\<close>

fun gemini_outcome :: "outcome \<Rightarrow> error + attr" where
  "gemini_outcome SxOutcome = Inl BuilderError"
| "gemini_outcome (NewAttr n v) =
     (case j_literal (ArgValue v) of Inl err \<Rightarrow> Inl err | Inr lit \<Rightarrow> Inr (JSXAttribute n (Some lit)))"

text \<open>
  What one attribute contributes to \<open>newAttributes\<close>. A rule that is an object matches
  neither \<open>typeof\<close> test, and the attribute is dropped. An inherited member is a rule as
  well: \<open>__proto__\<close> an object, the others functions, which called this way throw or return
  something without a \<open>newName\<close>.
\<close>

fun gemini_attr :: "(string \<times> prop_rule) list option \<Rightarrow> attr \<Rightarrow> error + attr list" where
  "gemini_attr None a = Inr [a]"
| "gemini_attr (Some propMap) (JSXSpreadAttribute e) = Inr [JSXSpreadAttribute e]"
| "gemini_attr (Some propMap) (JSXAttribute propName v) =
     (case js_get propMap propName of
        Absent \<Rightarrow> Inr [JSXAttribute propName v]
      | Own propRule \<Rightarrow>
          (case gemini_value v of
             Inl err \<Rightarrow> Inl err
           | Inr val \<Rightarrow>
               (case propRule of
                  RuleString new \<Rightarrow> Inr [JSXAttribute new v]
                | RuleFunction f \<Rightarrow>
                    (case f val of
                       Inl err \<Rightarrow> Inl err
                     | Inr results \<Rightarrow> sequence (map gemini_outcome results))
                | RuleObject \<Rightarrow> Inr []))
      | Inherited \<Rightarrow>
          (case gemini_value v of
             Inl err \<Rightarrow> Inl err
           | Inr val \<Rightarrow>
               if propName = ''__proto__'' then Inr []
               else if propName \<in> set [''constructor'', ''toString'', ''isPrototypeOf'']
               then Inl BuilderError else Inl TypeError))"

definition gemini_prop_loop :: "(string \<times> prop_rule) list option \<Rightarrow> attr list \<Rightarrow> error + attr list" where
  "gemini_prop_loop propMap attrs =
     (case sequence (map (gemini_attr propMap) attrs) of
        Inl err \<Rightarrow> Inl err
      | Inr xs \<Rightarrow> Inr (concat xs))"

section \<open>react-bootstrap-to-mui\_gemini2.js, the third script: classes and Modal\<close>

subsection \<open>extractSxFromClasses\<close>

text \<open>The rules, in the shape of those of bootstrap\_mui\_claude.js.\<close>

definition gemini_rules :: "rule list" where
  "gemini_rules =
     [Digit ''mb-'' ''mb'', Digit ''mt-'' ''mt'', Digit ''ms-'' ''ml'',
      Digit ''me-'' ''mr'', Digit ''mx-'' ''mx'', Digit ''my-'' ''my'', Digit ''p-'' ''p'',
      Digit ''px-'' ''px'', Digit ''py-'' ''py'', Digit ''pt-'' ''pt'',
      Digit ''pb-'' ''pb'', Digit ''ps-'' ''pl'', Digit ''pe-'' ''pr'',
      Digit ''gap-'' ''gap'', Fixed ''d-flex'' ''display'' ''flex'',
      Fixed ''d-block'' ''display'' ''block'', Fixed ''d-inline'' ''display'' ''inline'',
      Fixed ''d-none'' ''display'' ''none'',
      Fixed ''justify-content-center'' ''justifyContent'' ''center'',
      Fixed ''justify-content-between'' ''justifyContent'' ''space-between'',
      Fixed ''justify-content-around'' ''justifyContent'' ''space-around'',
      Fixed ''justify-content-end'' ''justifyContent'' ''flex-end'',
      Fixed ''align-items-center'' ''alignItems'' ''center'',
      Fixed ''align-items-end'' ''alignItems'' ''flex-end'',
      Fixed ''align-items-start'' ''alignItems'' ''flex-start'',
      Fixed ''flex-column'' ''flexDirection'' ''column'',
      Fixed ''text-center'' ''textAlign'' ''center'',
      Fixed ''text-start'' ''textAlign'' ''left'',
      Fixed ''text-end'' ''textAlign'' ''right'',
      Fixed ''text-primary'' ''color'' ''primary.main'',
      Fixed ''text-secondary'' ''color'' ''secondary.main'',
      Fixed ''text-success'' ''color'' ''success.main'',
      Fixed ''text-danger'' ''color'' ''error.main'',
      Fixed ''text-warning'' ''color'' ''warning.main'',
      Fixed ''text-info'' ''color'' ''info.main'',
      Fixed ''text-muted'' ''color'' ''text.secondary'',
      Fixed ''bg-primary'' ''bgcolor'' ''primary.main'',
      Fixed ''bg-secondary'' ''bgcolor'' ''secondary.main'',
      Fixed ''bg-success'' ''bgcolor'' ''success.main'',
      Fixed ''bg-danger'' ''bgcolor'' ''error.main'',
      Fixed ''bg-warning'' ''bgcolor'' ''warning.main'',
      Fixed ''bg-info'' ''bgcolor'' ''info.main'',
      Fixed ''bg-light'' ''bgcolor'' ''grey.100'',
      Fixed ''bg-dark'' ''bgcolor'' ''grey.900'']"

text \<open>
  \<open>let cls = classString || ''\<close>, then for each rule the \<open>exec\<close> loop and
  \<open>cls = cls.replace(rule.re, ' ').trim()\<close>. A value that is truthy and no string has no
  method \<open>replace\<close>.
\<close>

definition extractSxFromClasses :: "jsval \<Rightarrow> error + sx \<times> string" where
  "extractSxFromClasses classString =
     (case (if truthy classString then classString else JString []) of
        JString s \<Rightarrow>
          (case apply_rules gemini_rules '' '' ([], s) of
             (sxObj, cls) \<Rightarrow> Inr (sxObj, js_trim cls))
      | other \<Rightarrow> Inl TypeError)"

subsection \<open>convertClassesToSx\<close>

text \<open>
  \<open>classString\<close>: the value of a \<open>Literal\<close>, or of a \<open>Literal\<close> in an expression
  container, and \<open>''\<close> for everything else.
\<close>

definition gemini_classString :: "node \<Rightarrow> jsval" where
  "gemini_classString val =
     (case val of
        Lit t v \<Rightarrow> if t = Literal then v else JString []
      | JSXExpressionContainer e \<Rightarrow>
          (case e of Lit t v \<Rightarrow> if t = Literal then v else JString [] | other \<Rightarrow> JString [])
      | other \<Rightarrow> JString [])"

text \<open>
  \<open>mergeSxAttribute\<close> on a node whose \<open>attributes\<close> field may be missing, which is
  \<open>None\<close>: then \<open>openingElement.attributes || []\<close> has no \<open>sx\<close>, and
  \<open>openingElement.attributes.push\<close> throws.
\<close>

definition gemini_mergeSxAttribute_of :: "attr list option \<Rightarrow> sx \<Rightarrow> error + attr list" where
  "gemini_mergeSxAttribute_of nodeAttributes extraObj =
     (case nodeAttributes of
        None \<Rightarrow> Inl TypeError
      | Some attrs \<Rightarrow> gemini_mergeSxAttribute attrs extraObj)"

text \<open>
  One \<open>className\<close> attribute. \<open>attrPath.parent\<close> is the path of the opening element and
  \<open>attrPath.parent.parent\<close> that of the element (bootstrap\_mui\_claude.js reads
  \<open>path.parent.value.attributes\<close> and \<open>path.parent.parent.value.openingElement\<close>), so the
  node the script calls \<open>opening\<close> is the \<open>JSXElement\<close>. \<open>elementAttributes\<close> is the
  \<open>attributes\<close> field of that node; what the script does to it is not part of the tree.
\<close>

definition gemini_class_attr :: "attr list option \<Rightarrow> attr \<Rightarrow> error + attr" where
  "gemini_class_attr elementAttributes attr =
     (case attr of
        JSXAttribute n (Some val) \<Rightarrow>
          if n \<noteq> ''className'' then Inr attr
          else
            (case extractSxFromClasses (gemini_classString val) of
               Inl err \<Rightarrow> Inl err
             | Inr (sxObj, remainingClass) \<Rightarrow>
                 if sxObj = [] then Inr attr
                 else
                   (case gemini_mergeSxAttribute_of elementAttributes sxObj of
                      Inl err \<Rightarrow> Inl err
                    | Inr merged \<Rightarrow>
                        Inr (if remainingClass \<noteq> []
                             then JSXAttribute n (Some (Lit Literal (JString remainingClass)))
                             else attr)))
      | other \<Rightarrow> Inr attr)"

text \<open>A \<open>JSXElement\<close> node has no \<open>attributes\<close> field.\<close>

definition gemini_convertClassesToSx :: "head \<Rightarrow> unit \<Rightarrow> error + head \<times> unit" where
  "gemini_convertClassesToSx el u =
     (case el of
        (n, attrs, c) \<Rightarrow>
          (case sequence (map (gemini_class_attr None) attrs) of
             Inl err \<Rightarrow> Inl err
           | Inr attrs' \<Rightarrow> Inr ((n, attrs', c), u)))"

subsection \<open>transformModal\<close>

text \<open>\<open>bootstrapImports\<close>: the local names of the named imports from \<open>react-bootstrap\<close>.\<close>

definition gemini_bootstrapImports :: "import_decl list \<Rightarrow> string list" where
  "gemini_bootstrapImports decls =
     as_set (concat (map (\<lambda>d. concat (map (\<lambda>sp. case sp of ImportSpecifier i l \<Rightarrow> [l] | _ \<Rightarrow> [])
                                            (specifiers d)))
                         (filter (\<lambda>d. source d = ''react-bootstrap'') decls)))"



section \<open>Notions the properties are stated with\<close>

text \<open>
  The heads of all elements of a tree, in document order. A walk keeps the shape of the
  tree, so the \<open>i\<close>-th head after a walk belongs to the element that had the \<open>i\<close>-th head
  before.
\<close>

fun heads :: "element \<Rightarrow> head list"
  and heads_children :: "child list \<Rightarrow> head list"
  and heads_child :: "child \<Rightarrow> head list"
  and heads_elements :: "element list \<Rightarrow> head list"
where
  "heads (JSXElement n a c ch) = (n, a, c) # heads_children ch"
| "heads_children [] = []"
| "heads_children (x # xs) = heads_child x @ heads_children xs"
| "heads_child (ChildElement e) = heads e"
| "heads_child (JSXText t) = []"
| "heads_child (JSXExpressionChild code es) = heads_elements es"
| "heads_elements [] = []"
| "heads_elements (e # es) = heads e @ heads_elements es"




text \<open>An attribute whose value is not a literal node: computed, absent, or a spread.\<close>

fun dynamic :: "attr \<Rightarrow> bool" where
  "dynamic (JSXAttribute n (Some (Lit t v))) = False"
| "dynamic a = True"

text \<open>A visitor that never resets \<open>hasChanges\<close>.\<close>

definition keeps :: "(head \<Rightarrow> st \<Rightarrow> error + head \<times> st) \<Rightarrow> bool" where
  "keeps f = (\<forall>el s el' s'. f el s = Inr (el', s') \<longrightarrow> st_changed s \<longrightarrow> st_changed s')"

section \<open>Example files\<close>

text \<open>
  Files of one element. \<open>string_attrs t kvs\<close> are attributes with string literals as
  values, \<open>t\<close> the node type that the parser in use gives a string literal;
  \<open>one_element decls tag attrs\<close> is the file with the import declarations \<open>decls\<close> and the
  element \<open><tag ...attrs />\<close>.
\<close>

definition string_attrs :: "literal_type \<Rightarrow> (string \<times> string) list \<Rightarrow> attr list" where
  "string_attrs t kvs = map (\<lambda>(k, v). JSXAttribute k (Some (Lit t (JString v)))) kvs"

definition one_element :: "import_decl list \<Rightarrow> string \<Rightarrow> attr list \<Rightarrow> program" where
  "one_element decls tag attrs =
     \<lparr>import_decls = decls, local_decls = [],
      roots = [JSXElement (JSXIdentifier tag) attrs None []]\<rparr>"

definition named_import :: "string \<Rightarrow> string list \<Rightarrow> import_decl" where
  "named_import src names = \<lparr>source = src, specifiers = map (\<lambda>n. ImportSpecifier n n) names\<rparr>"

definition default_import :: "string \<Rightarrow> string \<Rightarrow> import_decl" where
  "default_import src n = \<lparr>source = src, specifiers = [ImportDefaultSpecifier n]\<rparr>"



section \<open>Properties of the style merge\<close>











section \<open>Properties of the tree walks\<close>

lemma walk_heads:
  fixes f :: "head \<Rightarrow> 's \<Rightarrow> error + head \<times> 's"
  shows "walk f e s = Inr (e', s') \<Longrightarrow>
           list_all2 (\<lambda>h h'. \<exists>s1 s2. f h s1 = Inr (h', s2)) (heads e) (heads e')"
    and "walk_children f ch s = Inr (ch', s') \<Longrightarrow>
           list_all2 (\<lambda>h h'. \<exists>s1 s2. f h s1 = Inr (h', s2)) (heads_children ch) (heads_children ch')"
    and "walk_child f x s = Inr (x', s') \<Longrightarrow>
           list_all2 (\<lambda>h h'. \<exists>s1 s2. f h s1 = Inr (h', s2)) (heads_child x) (heads_child x')"
    and "walk_elements f es s = Inr (es', s') \<Longrightarrow>
           list_all2 (\<lambda>h h'. \<exists>s1 s2. f h s1 = Inr (h', s2)) (heads_elements es) (heads_elements es')"
proof (induction f e s and f ch s and f x s and f es s
       arbitrary: e' s' and ch' s' and x' s' and es' s' rule: walk_walk_children_walk_child_walk_elements.induct)
  case (1 f n a c ch s)
  then show ?case
    by (auto split: sum.splits prod.splits) blast
next
  case (3 f x xs s)
  then show ?case
    by (auto split: sum.splits prod.splits intro!: list_all2_appendI)
next
  case (8 f e es s)
  then show ?case
    by (auto split: sum.splits prod.splits intro!: list_all2_appendI)
qed (auto split: sum.splits prod.splits)

lemma walk_invariant:
  fixes f :: "head \<Rightarrow> 's \<Rightarrow> error + head \<times> 's"
  assumes step: "\<And>el s el' s'. f el s = Inr (el', s') \<Longrightarrow> P s \<Longrightarrow> P s'"
  shows "walk f e s = Inr (e', s') \<Longrightarrow> P s \<Longrightarrow> P s'"
    and "walk_children f ch s = Inr (ch', s') \<Longrightarrow> P s \<Longrightarrow> P s'"
    and "walk_child f x s = Inr (x', s') \<Longrightarrow> P s \<Longrightarrow> P s'"
    and "walk_elements f es s = Inr (es', s') \<Longrightarrow> P s \<Longrightarrow> P s'"
  using step
proof (induction f e s and f ch s and f x s and f es s
       arbitrary: e' s' and ch' s' and x' s' and es' s' rule: walk_walk_children_walk_child_walk_elements.induct)
  case (1 f n a c ch s)
  from "1.prems"(1) obtain el1 s1 ch1 where f: "f (n, a, c) s = Inr (el1, s1)"
    and w: "walk_children f ch s1 = Inr (ch1, s')"
    by (auto split: sum.splits prod.splits)
  have "P s1" by (rule "1.prems"(3)[OF f "1.prems"(2)])
  obtain n1 a1 c1 where el1: "el1 = (n1, a1, c1)" by (cases el1) auto
  show ?case
    by (rule "1.IH"[OF f[unfolded el1] refl refl refl w \<open>P s1\<close> "1.prems"(3)])
next
  case (3 f x xs s)
  from "3.prems"(1) obtain x1 s1 xs1 where a: "walk_child f x s = Inr (x1, s1)"
    and b: "walk_children f xs s1 = Inr (xs1, s')"
    by (auto split: sum.splits prod.splits)
  have "P s1" by (rule "3.IH"(1)[OF a "3.prems"(2) "3.prems"(3)])
  show ?case by (rule "3.IH"(2)[OF a refl b \<open>P s1\<close> "3.prems"(3)])
next
  case (4 f e s)
  from "4.prems"(1) obtain e1 where a: "walk f e s = Inr (e1, s')"
    by (auto split: sum.splits prod.splits)
  show ?case by (rule "4.IH"[OF a "4.prems"(2) "4.prems"(3)])
next
  case (6 f code es s)
  from "6.prems"(1) obtain es1 where a: "walk_elements f es s = Inr (es1, s')"
    by (auto split: sum.splits prod.splits)
  show ?case by (rule "6.IH"[OF a "6.prems"(2) "6.prems"(3)])
next
  case (8 f e es s)
  from "8.prems"(1) obtain e1 s1 es1 where a: "walk f e s = Inr (e1, s1)"
    and b: "walk_elements f es s1 = Inr (es1, s')"
    by (auto split: sum.splits prod.splits)
  have "P s1" by (rule "8.IH"(1)[OF a "8.prems"(2) "8.prems"(3)])
  show ?case by (rule "8.IH"(2)[OF a refl b \<open>P s1\<close> "8.prems"(3)])
qed simp_all

lemma transformModals_changed:
  "transformModals e s = Inr (e', s') \<Longrightarrow> st_changed s \<Longrightarrow> st_changed s'"
  "transformModals_children ch s = Inr (ch', s') \<Longrightarrow> st_changed s \<Longrightarrow> st_changed s'"
  "transformModals_child x s = Inr (x', s') \<Longrightarrow> st_changed s \<Longrightarrow> st_changed s'"
  "transformModals_elements es s = Inr (es', s') \<Longrightarrow> st_changed s \<Longrightarrow> st_changed s'"
proof (induction e s and ch s and x s and es s
       arbitrary: e' s' and ch' s' and x' s' and es' s'
       rule: transformModals_transformModals_children_transformModals_child_transformModals_elements.induct)
  case (1 n a c ch s)
  show ?case
  proof (cases "n = JSXIdentifier ''Modal''")
    case True
    with "1.prems"(1) obtain b ch1 where s: "sequence (map modal_child ch) = Inr b"
      and w: "transformModals_children ch
                \<lparr>st_imports = addMUIImport ''Dialog'' (fold addMUIImport (concat (map snd b)) (st_imports s)),
                 st_changed = True\<rparr> = Inr (ch1, s')"
      by (auto split: sum.splits prod.splits)
    show ?thesis by (rule "1.IH"(1)[OF True s w]) simp
  next
    case False
    with "1.prems"(1) obtain ch1 where w: "transformModals_children ch s = Inr (ch1, s')"
      by (auto split: sum.splits prod.splits)
    show ?thesis by (rule "1.IH"(2)[OF False w "1.prems"(2)])
  qed
next
  case (3 x xs s)
  from "3.prems"(1) obtain x1 s1 xs1 where a: "transformModals_child x s = Inr (x1, s1)"
    and b: "transformModals_children xs s1 = Inr (xs1, s')"
    by (auto split: sum.splits prod.splits)
  have "st_changed s1" by (rule "3.IH"(1)[OF a "3.prems"(2)])
  show ?case by (rule "3.IH"(2)[OF a refl b \<open>st_changed s1\<close>])
next
  case (4 e s)
  from "4.prems"(1) obtain e1 where a: "transformModals e s = Inr (e1, s')"
    by (auto split: sum.splits prod.splits)
  show ?case by (rule "4.IH"[OF a "4.prems"(2)])
next
  case (6 code es s)
  from "6.prems"(1) obtain es1 where a: "transformModals_elements es s = Inr (es1, s')"
    by (auto split: sum.splits prod.splits)
  show ?case by (rule "6.IH"[OF a "6.prems"(2)])
next
  case (8 e es s)
  from "8.prems"(1) obtain e1 s1 es1 where a: "transformModals e s = Inr (e1, s1)"
    and b: "transformModals_elements es s1 = Inr (es1, s')"
    by (auto split: sum.splits prod.splits)
  have "st_changed s1" by (rule "8.IH"(1)[OF a "8.prems"(2)])
  show ?case by (rule "8.IH"(2)[OF a refl b \<open>st_changed s1\<close>])
qed simp_all

lemma keeps_transformButtons: "keeps transformButtons"
  unfolding keeps_def
  by (auto simp: transformButtons_def split: prod.splits sum.splits if_splits)
lemma keeps_transformAlerts: "keeps transformAlerts"
  unfolding keeps_def
  by (auto simp: transformAlerts_def split: prod.splits sum.splits if_splits)
lemma keeps_transformRow: "keeps transformRow"
  unfolding keeps_def
  by (auto simp: transformRow_def Let_def split: prod.splits sum.splits if_splits)
lemma keeps_transformCol: "keeps transformCol"
  unfolding keeps_def
  by (auto simp: transformCol_def split: prod.splits sum.splits if_splits)
lemma keeps_transformContainer: "keeps transformContainer"
  unfolding keeps_def
  by (auto simp: transformContainer_def split: prod.splits sum.splits if_splits)
lemma keeps_transformClassNamesToSx: "keeps transformClassNamesToSx"
  unfolding keeps_def
  by (auto simp: transformClassNamesToSx_def split: prod.splits sum.splits if_splits)

lemma keeps_transformCards: "keeps transformCards"
  unfolding keeps_def
proof (intro allI impI)
  fix el s el' s'
  show "transformCards el s = Inr (el', s') \<Longrightarrow> st_changed s \<Longrightarrow> st_changed s'"
    by (induction el s rule: transformCards.induct) (auto simp: renamed_to_def split: if_splits)
qed

lemma keeps_transformFormControls: "keeps transformFormControls"
  unfolding keeps_def
proof (intro allI impI)
  fix el s el' s'
  show "transformFormControls el s = Inr (el', s') \<Longrightarrow> st_changed s \<Longrightarrow> st_changed s'"
    by (induction el s rule: transformFormControls.induct) (auto simp: renamed_to_def split: if_splits)
qed

lemma pass_step:
  assumes "keeps f" and "st_changed (snd r)"
    and "\<And>r'. st_changed (snd r') \<Longrightarrow> k r' \<noteq> Inr Unchanged"
  shows "and_then (claude_pass f r) k \<noteq> Inr Unchanged"
proof (cases "claude_pass f r")
  case (Inl err)
  then show ?thesis by (simp add: and_then_def)
next
  case (Inr r')
  then have "walk_elements f (fst r) (snd r) = Inr (fst r', snd r')"
    by (simp add: claude_pass_def)
  from walk_invariant(4)[where P = st_changed, OF _ this assms(2)] assms(1)
  have "st_changed (snd r')" unfolding keeps_def by blast
  with assms(3) Inr show ?thesis by (simp add: and_then_def)
qed

lemma modals_step:
  assumes "st_changed (snd r)"
    and "\<And>r'. st_changed (snd r') \<Longrightarrow> k r' \<noteq> Inr Unchanged"
  shows "and_then (transformModals_elements (fst r) (snd r)) k \<noteq> Inr Unchanged"
proof (cases "transformModals_elements (fst r) (snd r)")
  case (Inl err)
  then show ?thesis by (simp add: and_then_def)
next
  case (Inr r')
  from transformModals_changed(4)[of "fst r" "snd r" "fst r'" "snd r'"] Inr assms(1)
  have "st_changed (snd r')" by simp
  with assms(2) Inr show ?thesis by (simp add: and_then_def)
qed


section \<open>The alias table\<close>




section \<open>Files that import nothing from the source library\<close>

lemma filter_id_conv_all: "(\<forall>x \<in> set xs. P x) \<Longrightarrow> filter P xs = xs"
  by (induction xs) auto

text \<open>
  C2 (as amended). react-bootstrap-to-mui\_claude.js returns a file unchanged at once when
  no import declaration of the file has the source \<open>react-bootstrap\<close>.
  bootstrap\_mui\_deep.js has no such exit: when no import source contains \<open>bootstrap\<close>
  its import pass removes nothing and does not set \<open>hasChanges\<close>, and the later passes
  still run over every element.
\<close>

theorem no_source_import_short_circuit:
  "((\<forall>d \<in> set (import_decls p). source d \<noteq> ''react-bootstrap'') \<longrightarrow> rbc_transform p = Inr Unchanged)
   \<and> ((\<forall>d \<in> set decls. \<not> js_includes (source d) ''bootstrap'') \<longrightarrow>
        deep_remove_imports decls = (decls, False))"
proof (intro conjI impI)
  assume "\<forall>d \<in> set (import_decls p). source d \<noteq> ''react-bootstrap''"
  then have "filter (\<lambda>d. source d = ''react-bootstrap'') (import_decls p) = []"
    by (simp add: filter_empty_conv)
  then show "rbc_transform p = Inr Unchanged"
    by (simp add: rbc_transform_def rbc_bootstrapImports_def as_set_def)
next
  assume "\<forall>d \<in> set decls. \<not> js_includes (source d) ''bootstrap''"
  then show "deep_remove_imports decls = (decls, False)"
    by (simp add: deep_remove_imports_def filter_id_conv_all)
qed

theorem no_source_import_short_circuit_witness:
  "rbc_transform (one_element [default_import ''react'' ''React''] ''Row'' []) = Inr Unchanged
   \<and> deep_remove_imports [default_import ''react'' ''React'']
       = ([default_import ''react'' ''React''], False)"
proof -
  have h1: "\<forall>d \<in> set (import_decls (one_element [default_import ''react'' ''React''] ''Row'' [])).
              source d \<noteq> ''react-bootstrap''"
    by (simp add: one_element_def default_import_def)
  have h2: "\<forall>d \<in> set [default_import ''react'' ''React'']. \<not> js_includes (source d) ''bootstrap''"
    by (simp add: default_import_def starts_with_def)
  from h1 h2 show ?thesis
    using no_source_import_short_circuit
      [of "one_element [default_import ''react'' ''React''] ''Row'' []"
          "[default_import ''react'' ''React'']"]
    by blast
qed

text \<open>
  bootstrap\_mui\_deep.js does not stop when nothing is imported from the source library:
  in a file that imports only \<open>react\<close>, \<open><Row />\<close> becomes a \<open>Grid\<close> and two imports are
  added.
\<close>

theorem deep_runs_without_source_import_counterexample:
  "deep_transform (\<lambda>n k. False) (one_element [default_import ''react'' ''React''] ''Row'' [])
   = Inr (Changed
       (one_element [default_import ''react'' ''React'',
                     default_import ''@mui/material/Grid'' ''Grid'',
                     default_import ''@mui/material/styles'' ''ThemeProvider''] ''Grid''
          [JSXAttribute ''container'' None,
           JSXAttribute ''spacing'' (Some (JSXExpressionContainer (Lit NumericLiteral (JNumber 2))))]))"
  by code_simp

section \<open>Running bootstrap\_mui\_claude.js twice\<close>

lemma first_run_example:
  "bootstrap_mui_claude
     (one_element [named_import ''react-bootstrap'' [''Button'']] ''Button''
        (string_attrs Literal [(''variant'', ''primary'')]))
   = Inr (Changed
       (one_element [default_import ''@mui/material/Button'' ''Button''] ''Button''
          (string_attrs StringLiteral [(''variant'', ''contained''), (''color'', ''primary'')])))"
  by code_simp

text \<open>
  C3 fails in bootstrap\_mui\_claude.js. The first run turns
  \<open>import { Button } from 'react-bootstrap'\<close> with \<open><Button variant="primary" />\<close> into
  \<open>import Button from '@mui/material/Button'\<close> with
  \<open><Button variant="contained" color="primary" />\<close>. Run on that output, read by a parser
  whose string literals have the type \<open>Literal\<close>, the script drops \<open>variant\<close>, since
  \<open>contained\<close> is no key of \<open>BUTTON_VARIANTS\<close>; on the tree the first run built, whose
  literals have the type \<open>StringLiteral\<close>, it puts a second \<open>variant="contained"\<close> in
  front. And no run ever reports an unchanged file, since \<open>removeBootstrapImports\<close> sets
  \<open>hasChanges\<close> whether or not it removed an import.
\<close>

theorem second_run_changes_again:
  "bootstrap_mui_claude
     (one_element [default_import ''@mui/material/Button'' ''Button''] ''Button''
        (string_attrs Literal [(''variant'', ''contained''), (''color'', ''primary'')]))
   = Inr (Changed
       (one_element [default_import ''@mui/material/Button'' ''Button''] ''Button''
          (string_attrs Literal [(''color'', ''primary'')])))
   \<and> bootstrap_mui_claude
     (one_element [default_import ''@mui/material/Button'' ''Button''] ''Button''
        (string_attrs StringLiteral [(''variant'', ''contained''), (''color'', ''primary'')]))
   = Inr (Changed
       (one_element [default_import ''@mui/material/Button'' ''Button''] ''Button''
          (string_attrs StringLiteral [(''variant'', ''contained''), (''variant'', ''contained''), (''color'', ''primary'')])))
   \<and> (\<forall>p. bootstrap_mui_claude p \<noteq> Inr Unchanged)"
proof (intro conjI allI)
  fix p
  show "bootstrap_mui_claude p \<noteq> Inr Unchanged"
    unfolding bootstrap_mui_claude_def
    apply (rule pass_step[OF keeps_transformButtons])
     apply (simp add: removeBootstrapImports_def)
    apply (rule pass_step[OF keeps_transformAlerts], assumption)
    apply (rule modals_step, assumption)
    apply (rule pass_step[OF keeps_transformRow], assumption)
    apply (rule pass_step[OF keeps_transformCol], assumption)
    apply (rule pass_step[OF keeps_transformContainer], assumption)
    apply (rule pass_step[OF keeps_transformCards], assumption)
    apply (rule pass_step[OF keeps_transformFormControls], assumption)
    apply (rule pass_step[OF keeps_transformClassNamesToSx], assumption)
    apply simp
    done
qed code_simp+

section \<open>Values outside the enumeration of a prop rule\<close>




section \<open>The import specifiers that stay\<close>














section \<open>Class tokens that no style rule matches\<close>

text \<open>
  C7 fails on two inputs. In bootstrap\_mui\_deep.js, \<open>className="constructor mb-3"\<close>:
  \<open>constructor\<close> is no key of \<open>CLASSNAME_TO_SX\<close>, but \<open>CLASSNAME_TO_SX[cls]\<close> finds the
  member every object inherits, so the token is not kept, and the attribute is removed with
  it. In bootstrap\_mui\_claude.js, \<open>className="d-flex-wrap mb-3"\<close>: the pattern
  \<open>\bd-flex\b\<close> matches inside the token \<open>d-flex-wrap\<close>, which no rule names, and what is
  left of it is \<open>-wrap\<close>.
\<close>

theorem unmatched_class_token_lost:
  "tokens ''constructor mb-3'' = [''constructor'', ''mb-3'']
   \<and> map_of CLASSNAME_TO_SX ''constructor'' = None
   \<and> deep_convertClassNameToSx (string_attrs StringLiteral [(''className'', ''constructor mb-3'')])
     = Inr ([JSXAttribute ''sx'' (Some (JSXExpressionContainer (ObjectExpression
               [Property (Identifier ''mb'') (Lit NumericLiteral (JNumber 3))])))], True)
   \<and> class_attrs (string_attrs Literal [(''className'', ''d-flex-wrap mb-3'')])
     = ([JSXAttribute ''className'' (Some (Lit StringLiteral (JString ''-wrap''))),
         JSXAttribute ''sx'' (Some (JSXExpressionContainer (ObjectExpression
               [Property (Identifier ''mb'') (Lit NumericLiteral (JNumber 3)),
                Property (Identifier ''display'') (Lit StringLiteral (JString ''flex''))])))], True)"
  by code_simp

section \<open>Attributes with a computed value\<close>

lemma button_attr_dynamic: "dynamic a \<Longrightarrow> button_attr a = Inr ([a], False)"
  by (cases a rule: dynamic.cases) auto

lemma button_attr_filter:
  "button_attr a = Inr (new, v) \<Longrightarrow> filter dynamic new = filter dynamic [a]"
  by (cases a rule: button_attr.cases)
     (auto simp: string_attr_def split: if_splits member.splits)

lemma button_attrs_filter:
  "button_attrs attrs = Inr (newAttrs, hasVariant) \<Longrightarrow> filter dynamic newAttrs = filter dynamic attrs"
proof (induction attrs arbitrary: newAttrs hasVariant)
  case Nil
  then show ?case by simp
next
  case (Cons a as)
  from Cons.prems obtain new v rest hv where a: "button_attr a = Inr (new, v)"
    and r: "button_attrs as = Inr (rest, hv)" and n: "newAttrs = new @ rest"
    by (auto split: sum.splits prod.splits)
  from button_attr_filter[OF a] Cons.IH[OF r] n show ?case by simp
qed

lemma button_attrs_dynamic: "list_all dynamic attrs \<Longrightarrow> button_attrs attrs = Inr (attrs, False)"
  by (induction attrs) (auto simp: button_attr_dynamic)

text \<open>
  C8 (as amended). In \<open>transformButtons\<close> of bootstrap\_mui\_claude.js an attribute whose
  value is not a literal node is passed through as it is: the attributes of that kind are
  the same, in the same order, before and after, and on a Button that has only such
  attributes the pass does not fail and only puts \<open>variant="contained"\<close> in front. The
  first script of react-bootstrap-to-mui\_gemini2.js has no such guard: it applies the rule
  of \<open>size\<close> to the \<open>value\<close> field of the expression, which a computed expression does
  not have, and the attribute becomes \<open>size="medium"\<close>.
\<close>

theorem dynamic_values:
  "(dynamic a \<longrightarrow> button_attr a = Inr ([a], False))
   \<and> (button_attrs attrs = Inr (newAttrs, hasVariant) \<longrightarrow>
        filter dynamic newAttrs = filter dynamic attrs)
   \<and> (list_all dynamic attrs' \<longrightarrow>
        transformButtons (JSXIdentifier ''Button'', attrs', c) s
        = Inr ((JSXIdentifier ''Button'', string_attr ''variant'' ''contained'' # attrs', c),
               \<lparr>st_imports = addMUIImport ''Button'' (st_imports s), st_changed = True\<rparr>))
   \<and> (node_value e = JUndefined \<longrightarrow>
        gemini_attr (Some gemini_Button_propMap) (JSXAttribute ''size'' (Some (JSXExpressionContainer e)))
        = Inr [JSXAttribute ''size'' (Some (Lit Literal (JString ''medium'')))])"
proof (intro conjI impI)
  assume "node_value e = JUndefined"
  then show "gemini_attr (Some gemini_Button_propMap) (JSXAttribute ''size'' (Some (JSXExpressionContainer e)))
        = Inr [JSXAttribute ''size'' (Some (Lit Literal (JString ''medium'')))]"
    by (simp add: gemini_Button_propMap_def js_get_def gemini_size_def)
qed (simp_all add: button_attr_dynamic button_attrs_filter button_attrs_dynamic transformButtons_def)

theorem dynamic_values_witness:
  "button_attr (JSXAttribute ''variant'' (Some (JSXExpressionContainer (Identifier ''v''))))
     = Inr ([JSXAttribute ''variant'' (Some (JSXExpressionContainer (Identifier ''v'')))], False)
   \<and> button_attrs [JSXAttribute ''size'' (Some (JSXExpressionContainer (Identifier ''s''))),
                    JSXAttribute ''variant'' (Some (Lit Literal (JString ''danger'')))]
     = Inr ([JSXAttribute ''size'' (Some (JSXExpressionContainer (Identifier ''s''))),
             string_attr ''variant'' ''contained'', string_attr ''color'' ''error''], True)
   \<and> filter dynamic [JSXAttribute ''size'' (Some (JSXExpressionContainer (Identifier ''s''))),
                      string_attr ''variant'' ''contained'', string_attr ''color'' ''error'']
     = filter dynamic [JSXAttribute ''size'' (Some (JSXExpressionContainer (Identifier ''s''))),
                       JSXAttribute ''variant'' (Some (Lit Literal (JString ''danger'')))]
   \<and> transformButtons
       (JSXIdentifier ''Button'',
        [JSXAttribute ''variant'' (Some (JSXExpressionContainer (Identifier ''v'')))], None)
       \<lparr>st_imports = [], st_changed = False\<rparr>
     = Inr ((JSXIdentifier ''Button'',
             [string_attr ''variant'' ''contained'',
              JSXAttribute ''variant'' (Some (JSXExpressionContainer (Identifier ''v'')))], None),
            \<lparr>st_imports = addMUIImport ''Button'' [], st_changed = True\<rparr>)
   \<and> gemini_attr (Some gemini_Button_propMap)
       (JSXAttribute ''size'' (Some (JSXExpressionContainer (Identifier ''s''))))
     = Inr [JSXAttribute ''size'' (Some (Lit Literal (JString ''medium'')))]"
  (is "?C1 \<and> ?H2 \<and> ?C2 \<and> ?C3 \<and> ?C4")
proof -
  note t = dynamic_values
    [of "JSXAttribute ''variant'' (Some (JSXExpressionContainer (Identifier ''v'')))"
        "[JSXAttribute ''size'' (Some (JSXExpressionContainer (Identifier ''s''))),
          JSXAttribute ''variant'' (Some (Lit Literal (JString ''danger'')))]"
        "[JSXAttribute ''size'' (Some (JSXExpressionContainer (Identifier ''s''))),
          string_attr ''variant'' ''contained'', string_attr ''color'' ''error'']"
        True
        "[JSXAttribute ''variant'' (Some (JSXExpressionContainer (Identifier ''v'')))]"
        None "\<lparr>st_imports = [], st_changed = False\<rparr>" "Identifier ''s''"]
  have h1: "dynamic (JSXAttribute ''variant'' (Some (JSXExpressionContainer (Identifier ''v''))))"
    by simp
  have h2: ?H2 by code_simp
  have h3: "list_all dynamic [JSXAttribute ''variant'' (Some (JSXExpressionContainer (Identifier ''v'')))]"
    by simp
  have h4: "node_value (Identifier ''s'') = JUndefined" by simp
  have c1: ?C1 by (rule mp[OF t[THEN conjunct1] h1])
  have c2: ?C2 by (rule mp[OF t[THEN conjunct2, THEN conjunct1] h2])
  have c3: ?C3 using mp[OF t[THEN conjunct2, THEN conjunct2, THEN conjunct1] h3] by simp
  have c4: ?C4 by (rule mp[OF t[THEN conjunct2, THEN conjunct2, THEN conjunct2] h4])
  show ?thesis by (intro conjI c1 h2 c2 c3 c4)
qed

text \<open>
  The first script of react-bootstrap-to-mui\_gemini2.js on \<open><Button size={s} />\<close>: the rule
  for \<open>size\<close> is applied to \<open>undefined\<close>, and the attribute becomes \<open>size="medium"\<close>.
\<close>

theorem dynamic_size_guessed_counterexample:
  "gemini_prop_loop (Some gemini_Button_propMap)
     [JSXAttribute ''size'' (Some (JSXExpressionContainer (Identifier ''s'')))]
   = Inr [JSXAttribute ''size'' (Some (Lit Literal (JString ''medium'')))]"
  by code_simp

section \<open>The class conversion pass\<close>

lemma walk_total:
  fixes f :: "head \<Rightarrow> 's \<Rightarrow> error + head \<times> 's"
  assumes total: "\<And>el s. \<exists>r. f el s = Inr r"
  shows "\<exists>r. walk f e s = Inr r"
    and "\<exists>r. walk_children f ch s = Inr r"
    and "\<exists>r. walk_child f x s = Inr r"
    and "\<exists>r. walk_elements f es s = Inr r"
  using total
proof (induction f e s and f ch s and f x s and f es s
       rule: walk_walk_children_walk_child_walk_elements.induct)
  case (1 f n a c ch s)
  from "1.prems" obtain n1 a1 c1 s1 where f: "f (n, a, c) s = Inr ((n1, a1, c1), s1)"
    by (metis prod.exhaust)
  from "1.IH"[OF f refl refl refl "1.prems"] obtain r where "walk_children f ch s1 = Inr r" by blast
  with f show ?case by (cases r) simp
next
  case (3 f x xs s)
  from "3.IH"(1)[OF "3.prems"] obtain x1 s1 where a: "walk_child f x s = Inr (x1, s1)"
    by (metis prod.exhaust)
  from "3.IH"(2)[OF a refl "3.prems"] obtain r where "walk_children f xs s1 = Inr r" by blast
  with a show ?case by (cases r) simp
next
  case (4 f e s)
  from "4.IH"[OF "4.prems"] obtain r where "walk f e s = Inr r" by blast
  then show ?case by (cases r) simp
next
  case (6 f code es s)
  from "6.IH"[OF "6.prems"] obtain r where "walk_elements f es s = Inr r" by blast
  then show ?case by (cases r) simp
next
  case (8 f e es s)
  from "8.IH"(1)[OF "8.prems"] obtain e1 s1 where a: "walk f e s = Inr (e1, s1)"
    by (metis prod.exhaust)
  from "8.IH"(2)[OF a refl "8.prems"] obtain r where "walk_elements f es s1 = Inr r" by blast
  with a show ?case by (cases r) simp
qed simp_all

lemma list_all2_function: "list_all2 (\<lambda>x y. y = g x) xs ys \<Longrightarrow> ys = map g xs"
  by (induction xs ys rule: list_all2_induct) simp_all

lemma class_attr_other:
  "(\<And>val. v \<noteq> Some (Lit Literal (JString val))) \<Longrightarrow> class_attr k v acc = acc"
  by (cases "(k, v, acc)" rule: class_attr.cases) auto

lemma class_attr_fold_other:
  "(\<And>k v val. (k, v) \<in> set kvs \<Longrightarrow> v \<noteq> Some (Lit Literal (JString val))) \<Longrightarrow>
   fold (\<lambda>kv. class_attr (fst kv) (snd kv)) kvs acc = acc"
proof (induction kvs)
  case Nil
  then show ?case by simp
next
  case (Cons kv kvs)
  have "class_attr (fst kv) (snd kv) acc = acc"
    by (rule class_attr_other) (metis Cons.prems list.set_intros(1) prod.collapse)
  moreover have "fold (\<lambda>kv. class_attr (fst kv) (snd kv)) kvs acc = acc"
    by (rule Cons.IH) (metis Cons.prems list.set_intros(2))
  ultimately show ?case by simp
qed

lemma transformClassNamesToSx_head:
  "transformClassNamesToSx el s = Inr (el', s') \<Longrightarrow>
   el' = (fst el, fst (class_attrs (fst (snd el))), snd (snd el))"
  by (cases el; cases "class_attrs (fst (snd el))") (auto simp: transformClassNamesToSx_def)

text \<open>
  In bootstrap\_mui\_claude.js the pass does what the claim says.
  \<open>transformClassNamesToSx\<close> succeeds on every tree, and it gives every element of the
  tree, whatever its name and whatever the file imports, the attributes that \<open>class_attrs\<close>
  computes from the element's own attributes. When no \<open>className\<close> attribute of an element
  has a string literal as its value (type \<open>Literal\<close>, as the ESTree parsers give it), the
  attributes stay as they are. When the element has one \<open>className\<close> attribute and its
  value is a string literal, the rules of \<open>CLASS_TO_SX\<close> are applied to the string: if they
  derive something it is merged into \<open>sx\<close>, and the attribute is set to the classes that
  are left or removed when none is.
\<close>

lemma transformClassNamesToSx_on_every_element:
  "(\<exists>es' s'. walk_elements transformClassNamesToSx es s = Inr (es', s')
        \<and> heads_elements es'
          = map (\<lambda>el. (fst el, fst (class_attrs (fst (snd el))), snd (snd el))) (heads_elements es))
   \<and> ((\<forall>k val. (k, Some (Lit Literal (JString val))) \<notin> set (class_values attrs)) \<longrightarrow>
        class_attrs attrs = (attrs, False))
   \<and> (class_values attrs = [(0, Some (Lit Literal (JString val)))] \<longrightarrow>
        class_attrs attrs
        = (case apply_rules CLASS_TO_SX [] ([], val) of
             (sxObj, cls) \<Rightarrow>
               if sxObj = [] then (attrs, False)
               else if cls \<noteq> []
               then (set_nth_attr ''className'' 0 (Some (Lit StringLiteral (JString cls)))
                       (mergeSxProp attrs sxObj), True)
               else (filter (\<lambda>a. attr_name a \<noteq> Some ''className'') (mergeSxProp attrs sxObj), True)))"
proof (intro conjI impI)
  have "\<exists>r. walk_elements transformClassNamesToSx es s = Inr r"
    by (rule walk_total(4)) (simp add: transformClassNamesToSx_def split: prod.splits)
  then obtain es' s' where w: "walk_elements transformClassNamesToSx es s = Inr (es', s')"
    by (metis prod.exhaust)
  have "list_all2 (\<lambda>el el'. el' = (fst el, fst (class_attrs (fst (snd el))), snd (snd el)))
          (heads_elements es) (heads_elements es')"
    by (rule list_all2_mono[OF walk_heads(4)[OF w]])
       (auto dest: transformClassNamesToSx_head)
  then have "heads_elements es'
      = map (\<lambda>el. (fst el, fst (class_attrs (fst (snd el))), snd (snd el))) (heads_elements es)"
    by (rule list_all2_function)
  with w show "\<exists>es' s'. walk_elements transformClassNamesToSx es s = Inr (es', s')
        \<and> heads_elements es'
          = map (\<lambda>el. (fst el, fst (class_attrs (fst (snd el))), snd (snd el))) (heads_elements es)"
    by blast
next
  assume "\<forall>k val. (k, Some (Lit Literal (JString val))) \<notin> set (class_values attrs)"
  then have "fold (\<lambda>kv. class_attr (fst kv) (snd kv)) (class_values attrs) (attrs, False, False)
             = (attrs, False, False)"
    by (intro class_attr_fold_other) auto
  then show "class_attrs attrs = (attrs, False)" by (simp add: class_attrs_def)
next
  assume "class_values attrs = [(0, Some (Lit Literal (JString val)))]"
  then show "class_attrs attrs
        = (case apply_rules CLASS_TO_SX [] ([], val) of
             (sxObj, cls) \<Rightarrow>
               if sxObj = [] then (attrs, False)
               else if cls \<noteq> []
               then (set_nth_attr ''className'' 0 (Some (Lit StringLiteral (JString cls)))
                       (mergeSxProp attrs sxObj), True)
               else (filter (\<lambda>a. attr_name a \<noteq> Some ''className'') (mergeSxProp attrs sxObj), True))"
    by (simp add: class_attrs_def split: prod.splits)
qed

lemma transformClassNamesToSx_example:
  "(\<exists>es' s'.
       walk_elements transformClassNamesToSx
         (roots (one_element [] ''div'' (string_attrs Literal [(''className'', ''mb-3 wide'')])))
         \<lparr>st_imports = [], st_changed = False\<rparr> = Inr (es', s')
       \<and> heads_elements es'
         = [(JSXIdentifier ''div'',
             [JSXAttribute ''className'' (Some (Lit StringLiteral (JString ''wide''))),
              JSXAttribute ''sx'' (Some (JSXExpressionContainer (ObjectExpression
                [Property (Identifier ''mb'') (Lit NumericLiteral (JNumber 3))])))],
             None)])
   \<and> class_attrs [JSXAttribute ''className'' (Some (JSXExpressionContainer (Identifier ''cls'')))]
     = ([JSXAttribute ''className'' (Some (JSXExpressionContainer (Identifier ''cls'')))], False)
   \<and> class_attrs (string_attrs Literal [(''className'', ''mb-3 wide'')])
     = ([JSXAttribute ''className'' (Some (Lit StringLiteral (JString ''wide''))),
         JSXAttribute ''sx'' (Some (JSXExpressionContainer (ObjectExpression
           [Property (Identifier ''mb'') (Lit NumericLiteral (JNumber 3))])))], True)"
  (is "?C1 \<and> ?C2 \<and> ?C3")
proof -
  have e1: "map (\<lambda>el. (fst el, fst (class_attrs (fst (snd el))), snd (snd el)))
              (heads_elements (roots (one_element [] ''div''
                 (string_attrs Literal [(''className'', ''mb-3 wide'')]))))
            = [(JSXIdentifier ''div'',
                [JSXAttribute ''className'' (Some (Lit StringLiteral (JString ''wide''))),
                 JSXAttribute ''sx'' (Some (JSXExpressionContainer (ObjectExpression
                   [Property (Identifier ''mb'') (Lit NumericLiteral (JNumber 3))])))],
                None)]"
    by code_simp
  have h2: "\<forall>k val. (k, Some (Lit Literal (JString val)))
              \<notin> set (class_values [JSXAttribute ''className'' (Some (JSXExpressionContainer (Identifier ''cls'')))])"
    by (simp add: class_values_def)
  have h3: "class_values (string_attrs Literal [(''className'', ''mb-3 wide'')])
            = [(0, Some (Lit Literal (JString ''mb-3 wide'')))]"
    by (simp add: class_values_def string_attrs_def)
  have e3: "(case apply_rules CLASS_TO_SX [] ([], ''mb-3 wide'') of
             (sxObj, cls) \<Rightarrow>
               if sxObj = [] then (string_attrs Literal [(''className'', ''mb-3 wide'')], False)
               else if cls \<noteq> []
               then (set_nth_attr ''className'' 0 (Some (Lit StringLiteral (JString cls)))
                       (mergeSxProp (string_attrs Literal [(''className'', ''mb-3 wide'')]) sxObj), True)
               else (filter (\<lambda>a. attr_name a \<noteq> Some ''className'')
                       (mergeSxProp (string_attrs Literal [(''className'', ''mb-3 wide'')]) sxObj), True))
            = ([JSXAttribute ''className'' (Some (Lit StringLiteral (JString ''wide''))),
                JSXAttribute ''sx'' (Some (JSXExpressionContainer (ObjectExpression
                  [Property (Identifier ''mb'') (Lit NumericLiteral (JNumber 3))])))], True)"
    by code_simp
  have c1: ?C1
    using transformClassNamesToSx_on_every_element
      [where es = "roots (one_element [] ''div'' (string_attrs Literal [(''className'', ''mb-3 wide'')]))"
         and s = "\<lparr>st_imports = [], st_changed = False\<rparr>", THEN conjunct1]
    unfolding e1 .
  have c2: ?C2
    by (rule mp[OF transformClassNamesToSx_on_every_element
          [where attrs = "[JSXAttribute ''className'' (Some (JSXExpressionContainer (Identifier ''cls'')))]",
           THEN conjunct2, THEN conjunct1] h2])
  have c3: ?C3
    by (rule trans[OF mp[OF transformClassNamesToSx_on_every_element
          [where attrs = "string_attrs Literal [(''className'', ''mb-3 wide'')]" and val = "''mb-3 wide''",
           THEN conjunct2, THEN conjunct2] h3] e3])
  show ?thesis by (intro conjI c1 c2 c3)
qed


lemma walk_unchanged:
  fixes f :: "head \<Rightarrow> 's \<Rightarrow> error + head \<times> 's"
  assumes same: "\<And>el s el' s'. f el s = Inr (el', s') \<Longrightarrow> el' = el"
  shows "walk f e s = Inr (e', s') \<Longrightarrow> e' = e"
    and "walk_children f ch s = Inr (ch', s') \<Longrightarrow> ch' = ch"
    and "walk_child f x s = Inr (x', s') \<Longrightarrow> x' = x"
    and "walk_elements f es s = Inr (es', s') \<Longrightarrow> es' = es"
  using same
proof (induction f e s and f ch s and f x s and f es s
       arbitrary: e' s' and ch' s' and x' s' and es' s' rule: walk_walk_children_walk_child_walk_elements.induct)
  case (1 f n a c ch s)
  from "1.prems"(1) obtain el1 s1 ch1 where f: "f (n, a, c) s = Inr (el1, s1)"
    and w: "walk_children f ch s1 = Inr (ch1, s')"
    and e': "e' = JSXElement (fst el1) (fst (snd el1)) (snd (snd el1)) ch1"
    by (auto split: sum.splits prod.splits)
  have el1: "el1 = (n, a, c)" by (rule "1.prems"(2)[OF f])
  have "ch1 = ch" by (rule "1.IH"[OF f[unfolded el1] refl refl refl w "1.prems"(2)])
  with e' el1 show ?case by simp
next
  case (3 f x xs s)
  from "3.prems"(1) obtain x1 s1 xs1 where a: "walk_child f x s = Inr (x1, s1)"
    and b: "walk_children f xs s1 = Inr (xs1, s')" and c: "ch' = x1 # xs1"
    by (auto split: sum.splits prod.splits)
  from "3.IH"(1)[OF a "3.prems"(2)] "3.IH"(2)[OF a refl b "3.prems"(2)] c show ?case by simp
next
  case (4 f e s)
  from "4.prems"(1) obtain e1 where a: "walk f e s = Inr (e1, s')" and b: "x' = ChildElement e1"
    by (auto split: sum.splits prod.splits)
  from "4.IH"[OF a "4.prems"(2)] b show ?case by simp
next
  case (6 f code es s)
  from "6.prems"(1) obtain es1 where a: "walk_elements f es s = Inr (es1, s')"
    and b: "x' = JSXExpressionChild code es1"
    by (auto split: sum.splits prod.splits)
  from "6.IH"[OF a "6.prems"(2)] b show ?case by simp
next
  case (8 f e es s)
  from "8.prems"(1) obtain e1 s1 es1 where a: "walk f e s = Inr (e1, s1)"
    and b: "walk_elements f es s1 = Inr (es1, s')" and c: "es' = e1 # es1"
    by (auto split: sum.splits prod.splits)
  from "8.IH"(1)[OF a "8.prems"(2)] "8.IH"(2)[OF a refl b "8.prems"(2)] c show ?case by simp
qed auto

lemma gemini_class_attr_unchanged: "gemini_class_attr None a = Inr a' \<Longrightarrow> a' = a"
  by (auto simp: gemini_class_attr_def gemini_mergeSxAttribute_of_def
           split: attr.splits option.splits sum.splits prod.splits if_splits)

lemma gemini_class_attrs_unchanged:
  "sequence (map (gemini_class_attr None) attrs) = Inr attrs' \<Longrightarrow> attrs' = attrs"
  by (induction attrs arbitrary: attrs')
     (auto split: sum.splits dest: gemini_class_attr_unchanged)

text \<open>
  Whenever \<open>convertClassesToSx\<close> of the third script of react-bootstrap-to-mui\_gemini2.js
  returns, it has changed nothing.
\<close>

lemma gemini_convertClassesToSx_converts_nothing:
  "walk_elements gemini_convertClassesToSx es u = Inr (es', u') \<Longrightarrow> es' = es"
proof (rule walk_unchanged(4))
  fix el s el' s'
  assume "gemini_convertClassesToSx el s = Inr (el', s')"
  then show "el' = el"
    by (cases el)
       (auto simp: gemini_convertClassesToSx_def split: sum.splits
             dest: gemini_class_attrs_unchanged)
qed

text \<open>
  C9 fails in the third script of react-bootstrap-to-mui\_gemini2.js. On
  \<open><div className="mb-3 wide" />\<close>, read by a parser whose string literals have the type
  \<open>Literal\<close>, \<open>extractSxFromClasses\<close> derives \<open>{mb: 3}\<close>, and \<open>convertClassesToSx\<close>
  then calls \<open>mergeSxAttribute\<close> with \<open>attrPath.parent.parent.node\<close>. That node is the
  element, not its opening element: it has no \<open>attributes\<close>, and the call throws. The
  class of no element is converted.
\<close>

theorem class_conversion_throws:
  "extractSxFromClasses (JString ''mb-3 wide'') = Inr ([(''mb'', SxNum 3)], ''wide'')
   \<and> gemini_mergeSxAttribute_of None [(''mb'', SxNum 3)] = Inl TypeError
   \<and> walk_elements gemini_convertClassesToSx
       (roots (one_element [] ''div'' (string_attrs Literal [(''className'', ''mb-3 wide'')]))) ()
     = Inl TypeError"
  by code_simp

section \<open>The parts of a Modal\<close>













end
